theory Spec2Isabelle
  imports Main "HOL-Library.AList" "HOL-Library.Multiset" "HOL-Library.Sublist"
begin

section \<open>Data model\<close>

subsection \<open>Analyzer descriptors\<close>

text \<open>
  Modelled from the spec: the declaration of \<^verbatim>\<open>linter.Config\<close> (package
  \<^verbatim>\<open>pkg/lint/linter\<close>) is missing from the sources. An analyzer descriptor carries a
  name and the capability flags \<^verbatim>\<open>needsFullLoad\<close> and \<^verbatim>\<open>needsDataflowRepr\<close>;
  \<^verbatim>\<open>load.go\<close> reads them through the methods \<^verbatim>\<open>NeedsProgramLoading()\<close> and
  \<^verbatim>\<open>NeedsSSARepresentation()\<close>, which are the fields of the record.
\<close>

record linter_Config =
  LinterName :: string
  NeedsProgramLoading :: bool
  NeedsSSARepresentation :: bool

subsection \<open>Loaded programs\<close>

text \<open>
  \<^verbatim>\<open>loader.PackageInfo\<close> and \<^verbatim>\<open>loader.Program\<close> belong to the loader library. The code
  reads \<^verbatim>\<open>info.Errors\<close>, \<^verbatim>\<open>prog.Created\<close> (a slice of package pointers) and
  \<^verbatim>\<open>prog.Imported\<close> (a map from import path to package pointer). A package pointer is
  modelled by the value it points to, which no function below changes; \<open>Pkg\<close> tells
  packages apart. A Go slice or map may be \<^verbatim>\<open>nil\<close>: \<open>None\<close>. The map is an association
  list: its order is the order in which \<^verbatim>\<open>range\<close> visits the entries in one run (Go
  leaves it unspecified), and its keys are distinct (\<open>wf_Program\<close>).
\<close>

record loader_PackageInfo =
  Pkg :: string
  Errors :: "string list"

record loader_Program =
  Created :: "loader_PackageInfo list option"
  Imported :: "(string \<times> loader_PackageInfo) list option"

definition wf_Program :: "loader_Program \<Rightarrow> bool" where
  "wf_Program prog =
     (case Imported prog of None \<Rightarrow> True | Some m \<Rightarrow> distinct (map fst m))"

definition createdPackages :: "loader_Program \<Rightarrow> loader_PackageInfo list" where
  "createdPackages prog = (case Created prog of None \<Rightarrow> [] | Some cs \<Rightarrow> cs)"

definition importedEntries :: "loader_Program \<Rightarrow> (string \<times> loader_PackageInfo) list" where
  "importedEntries prog = (case Imported prog of None \<Rightarrow> [] | Some m \<Rightarrow> m)"

definition importedPackages :: "loader_Program \<Rightarrow> loader_PackageInfo list" where
  "importedPackages prog = map snd (importedEntries prog)"

section \<open>Capability query\<close>

text \<open>
  \<^verbatim>\<open>
  func isFullImportNeeded(linters []linter.Config) bool {
      for _, linter := range linters {
          if linter.NeedsProgramLoading() { return true }
      }
      return false
  }
  \<close>
  and the same loop over \<^verbatim>\<open>NeedsSSARepresentation()\<close>.
\<close>

fun isFullImportNeeded :: "linter_Config list \<Rightarrow> bool" where
  "isFullImportNeeded [] = False"
| "isFullImportNeeded (linter # linters) =
     (if NeedsProgramLoading linter then True else isFullImportNeeded linters)"

fun isSSAReprNeeded :: "linter_Config list \<Rightarrow> bool" where
  "isSSAReprNeeded [] = False"
| "isSSAReprNeeded (linter # linters) =
     (if NeedsSSARepresentation linter then True else isSSAReprNeeded linters)"

section \<open>Compile-health partitioner\<close>

text \<open>
  The first loop of \<^verbatim>\<open>separateNotCompilingPackages\<close>: the state is the side list
  \<^verbatim>\<open>lintCtx.NotCompilingPackages\<close> and the slice \<^verbatim>\<open>compilingCreated\<close>.
\<close>

fun separateCreated ::
  "loader_PackageInfo list \<Rightarrow> loader_PackageInfo list \<times> loader_PackageInfo list \<Rightarrow>
   loader_PackageInfo list \<times> loader_PackageInfo list" where
  "separateCreated [] st = st"
| "separateCreated (info # infos) (notCompiling, compilingCreated) =
     (if length (Errors info) \<noteq> 0
      then separateCreated infos (notCompiling @ [info], compilingCreated)
      else separateCreated infos (notCompiling, compilingCreated @ [info]))"

text \<open>
  The second loop ranges over the map and deletes from it while ranging. Go produces an
  entry only if it is still in the map when the iteration reaches it, so each step looks
  the key up in the current map. The keys are visited in the order of the map at entry.
\<close>

fun separateImported ::
  "string list \<Rightarrow> loader_PackageInfo list \<times> (string \<times> loader_PackageInfo) list \<Rightarrow>
   loader_PackageInfo list \<times> (string \<times> loader_PackageInfo) list" where
  "separateImported [] st = st"
| "separateImported (k # ks) (notCompiling, imported) =
     (case map_of imported k of
        None \<Rightarrow> separateImported ks (notCompiling, imported)
      | Some info \<Rightarrow>
          if length (Errors info) \<noteq> 0
          then separateImported ks (notCompiling @ [info], AList.delete k imported)
          else separateImported ks (notCompiling, imported))"

text \<open>
  The body of \<^verbatim>\<open>separateNotCompilingPackages\<close> on the program that \<^verbatim>\<open>lintCtx.Program\<close>
  points to and the side list of the context; both are updated in place by the source.
\<close>

definition separateProgram ::
  "loader_Program \<Rightarrow> loader_PackageInfo list \<Rightarrow> loader_Program \<times> loader_PackageInfo list" where
  "separateProgram prog notCompiling =
     (let (nc1, prog1) =
            (case Created prog of
               None \<Rightarrow> (notCompiling, prog)
             | Some created \<Rightarrow>
                 (let (nc, compilingCreated) = separateCreated created (notCompiling, [])
                  in (nc, prog\<lparr>Created := Some compilingCreated\<rparr>)))
      in (case Imported prog1 of
            None \<Rightarrow> (prog1, nc1)
          | Some imported \<Rightarrow>
              (let (nc, imported') = separateImported (map fst imported) (nc1, imported)
               in (prog1\<lparr>Imported := Some imported'\<rparr>, nc))))"

section \<open>Configuration, targets and the artefacts of a run\<close>

text \<open>
  Of \<^verbatim>\<open>config.Run\<close> and \<^verbatim>\<open>config.LintersSettings\<close> the fields that the functions below
  read; the profiling, output and limit options are not read by them.
\<close>

record config_Run =
  Args :: "string list"
  BuildTags :: "string list"
  AnalyzeTests :: bool
  SkipDirs :: "string list"

record config_LintersSettings =
  Govet_CheckShadowing :: bool

record config_Config =
  Run :: config_Run
  LintersSettings :: config_LintersSettings

text \<open>
  The resolved targets (\<^verbatim>\<open>packages.Program\<close>, \<^verbatim>\<open>packages.Package\<close>) are declared in
  package \<^verbatim>\<open>pkg/packages\<close>. Each field below is the result of the method of that name
  that the code calls; \<^verbatim>\<open>Files\<close> takes the analyze-tests flag.
\<close>

record build_Context =
  GOROOT :: string
  Context_BuildTags :: "string list"

record packages_Package =
  Package_Files :: "bool \<Rightarrow> string list"

record packages_Program =
  BuildContext :: build_Context
  Dirs :: "string list"
  Files :: "bool \<Rightarrow> string list"
  Packages :: "packages_Package list"

datatype packages_Resolver = Resolver "string list" "string list"

datatype parser_Mode = ParseComments

text \<open>
  \<^verbatim>\<open>loader.Config\<close>: the three fields that \<^verbatim>\<open>loadWholeAppIfNeeded\<close> sets, and the initial
  packages that \<^verbatim>\<open>FromArgs\<close> records in the configuration.
\<close>

record loader_Config =
  Build :: build_Context
  AllowErrors :: bool
  ParserMode :: parser_Mode
  CreatePkgs :: "string list list"
  ImportPkgs :: "string list"

datatype ssa_BuilderMode = GlobalDebug

text \<open>
  An SSA program is known by what it was created from and whether \<^verbatim>\<open>Build\<close> ran on it.
\<close>

record ssa_Program =
  ssa_prog :: loader_Program
  ssa_mode :: ssa_BuilderMode
  ssa_built :: bool

datatype astcache_Cache = Cache "string list"

record linter_Context =
  PkgProgram :: packages_Program
  Cfg :: config_Config
  Program :: "loader_Program option"
  SSAProgram :: "ssa_Program option"
  LoaderConfig :: "loader_Config option"
  ASTCache :: astcache_Cache
  NotCompilingPackages :: "loader_PackageInfo list"

subsection \<open>Errors\<close>

text \<open>
  \<open>External\<close> is an error that a library returned. Every other constructor is one
  \<^verbatim>\<open>fmt.Errorf\<close> of \<^verbatim>\<open>load.go\<close>, with the values it formats:
  \<^verbatim>\<open>"can't get working dir: %s"\<close>,
  \<^verbatim>\<open>"can't get relative path for path %s and root %s: %s"\<close>,
  \<^verbatim>\<open>"can't parepare load config with paths: %s"\<close>,
  \<^verbatim>\<open>"unhandled loading paths: %v"\<close>,
  \<^verbatim>\<open>"can't load program from paths %v: %s"\<close>,
  \<^verbatim>\<open>"can't execute go env GOROOT: %s"\<close>,
  \<^verbatim>\<open>"can't discover GOROOT: %s"\<close>.
\<close>

datatype error =
    External string
  | CantGetWorkingDir error
  | CantGetRelativePath string string error
  | CantPrepareLoadConfig error
  | UnhandledLoadingPaths "string list"
  | CantLoadProgram "string list" error
  | CantExecuteGoEnv error
  | CantDiscoverGOROOT error

subsection \<open>The process and its collaborators\<close>

text \<open>
  What the functions change outside their results: the process environment
  (\<^verbatim>\<open>os.Getenv\<close> gives the empty string for an unset variable), the variable
  \<^verbatim>\<open>build.Default.GOROOT\<close>, and the calls made to the collaborators, oldest first.
\<close>

datatype effect =
    Exec_go_env_GOROOT
  | Setenv string string
  | Assign_build_Default_GOROOT string
  | NewResolver "string list" "string list"
  | Resolve "string list"
  | FromArgs "string list" bool
  | Load
  | CreateProgram
  | BuildSSA
  | LoadFromProgram
  | LoadFromFiles "string list"

record world =
  environ :: "string \<Rightarrow> string"
  build_Default_GOROOT :: string
  effects :: "effect list"

text \<open>
  What the operating system and the libraries answer. They are parameters of the model:
  the working directory, \<^verbatim>\<open>filepath.IsAbs\<close> and \<^verbatim>\<open>filepath.Rel\<close>, the output of
  \<^verbatim>\<open>go env GOROOT\<close>, \<^verbatim>\<open>strings.TrimSpace\<close>, the target resolver, the program loader, the
  parse cache and the vet analysis.
\<close>

record token_Position =
  Filename :: string
  Line :: int
  Column :: int

record govetAPI_Issue =
  Pos :: token_Position
  Message :: string

record externals =
  os_Getwd :: "error + string"
  filepath_IsAbs :: "string \<Rightarrow> bool"
  filepath_Rel :: "string \<Rightarrow> string \<Rightarrow> error + string"
  exec_go_env_GOROOT :: "error + string"
  strings_TrimSpace :: "string \<Rightarrow> string"
  packages_StdExcludeDirRegexps :: "string list"
  packages_NewResolver :: "string list \<Rightarrow> string list \<Rightarrow> error + packages_Resolver"
  Resolver_Resolve :: "packages_Resolver \<Rightarrow> string list \<Rightarrow> error + packages_Program"
  Config_FromArgs ::
    "loader_Config \<Rightarrow> string list \<Rightarrow> bool \<Rightarrow> error + (string list \<times> loader_Config)"
  Config_Load :: "loader_Config \<Rightarrow> error + loader_Program"
  astcache_LoadFromProgram :: "loader_Program \<Rightarrow> error + astcache_Cache"
  astcache_LoadFromFiles :: "string list \<Rightarrow> error + astcache_Cache"
  govetAPI_Run :: "string list \<Rightarrow> bool \<Rightarrow> error + govetAPI_Issue list"

definition record_effect :: "effect \<Rightarrow> world \<Rightarrow> world" where
  "record_effect e w = w\<lparr>effects := effects w @ [e]\<rparr>"

text \<open>
  \<^verbatim>\<open>os.Setenv\<close> returns an error (the system's \<^verbatim>\<open>EINVAL\<close>) and leaves the environment as
  it is when the key is empty, when the key holds \<^verbatim>\<open>=\<close> or a NUL byte, or when the value
  holds a NUL byte; otherwise it stores the value and returns nil. The result is the error
  (\<open>None\<close> is nil) and the world after the call.
\<close>

definition os_Setenv :: "string \<Rightarrow> string \<Rightarrow> world \<Rightarrow> error option \<times> world" where
  "os_Setenv key val w =
     (let w1 = record_effect (Setenv key val) w
      in if length key = 0 \<or> CHR ''='' \<in> set key \<or> CHR 0x00 \<in> set key
            \<or> CHR 0x00 \<in> set val
         then (Some (External ''setenv: invalid argument''), w1)
         else (None, w1\<lparr>environ := (environ w)(key := val)\<rparr>))"

section \<open>Path normalisation\<close>

text \<open>
  The loop of \<^verbatim>\<open>normalizePaths\<close>; \<open>ret\<close> is the slice built so far.
\<close>

fun normalizePathsLoop ::
  "externals \<Rightarrow> string \<Rightarrow> string list \<Rightarrow> string list \<Rightarrow> error + string list" where
  "normalizePathsLoop ext root [] ret = Inr ret"
| "normalizePathsLoop ext root (p # paths) ret =
     (if filepath_IsAbs ext p
      then (case filepath_Rel ext root p of
              Inl err \<Rightarrow> Inl (CantGetRelativePath p root err)
            | Inr relPath \<Rightarrow> normalizePathsLoop ext root paths (ret @ [''./'' @ relPath]))
      else normalizePathsLoop ext root paths (ret @ [''./'' @ p]))"

definition normalizePaths :: "externals \<Rightarrow> string list \<Rightarrow> error + string list" where
  "normalizePaths ext paths =
     (case os_Getwd ext of
        Inl err \<Rightarrow> Inl (CantGetWorkingDir err)
      | Inr root \<Rightarrow> normalizePathsLoop ext root paths [])"

section \<open>Program loader\<close>

text \<open>
  \<^verbatim>\<open>loadWholeAppIfNeeded\<close> returns \<^verbatim>\<open>(prog, loadcfg, err)\<close>; whenever \<^verbatim>\<open>err\<close> is not nil the
  other two are nil, so the result is an error or the pair. The timing log is left out.
\<close>

definition loadWholeAppIfNeeded ::
  "externals \<Rightarrow> linter_Config list \<Rightarrow> config_Run \<Rightarrow> packages_Program \<Rightarrow> world \<Rightarrow>
   (error + loader_Program option \<times> loader_Config option) \<times> world" where
  "loadWholeAppIfNeeded ext linters cfg pkgProg w =
     (if \<not> isFullImportNeeded linters then (Inr (None, None), w)
      else
        let bctx = BuildContext pkgProg;
            loadcfg = \<lparr>Build = bctx, AllowErrors = True, ParserMode = ParseComments,
                       CreatePkgs = [], ImportPkgs = []\<rparr>;
            dirs = Dirs pkgProg;
            loaderArgs = (if length dirs \<noteq> 0 then dirs else Files pkgProg (AnalyzeTests cfg))
        in (case normalizePaths ext loaderArgs of
              Inl err \<Rightarrow> (Inl err, w)
            | Inr nLoaderArgs \<Rightarrow>
                (let w1 = record_effect (FromArgs nLoaderArgs (AnalyzeTests cfg)) w
                 in (case Config_FromArgs ext loadcfg nLoaderArgs (AnalyzeTests cfg) of
                       Inl err \<Rightarrow> (Inl (CantPrepareLoadConfig err), w1)
                     | Inr (rest, loadcfg') \<Rightarrow>
                         if length rest > 0 then (Inl (UnhandledLoadingPaths rest), w1)
                         else
                           (let w2 = record_effect Load w1
                            in (case Config_Load ext loadcfg' of
                                  Inl err \<Rightarrow> (Inl (CantLoadProgram loaderArgs err), w2)
                                | Inr prog \<Rightarrow> (Inr (Some prog, Some loadcfg'), w2)))))))"

section \<open>Representation builder\<close>

definition ssautil_CreateProgram :: "loader_Program \<Rightarrow> ssa_BuilderMode \<Rightarrow> ssa_Program" where
  "ssautil_CreateProgram lprog mode = \<lparr>ssa_prog = lprog, ssa_mode = mode, ssa_built = False\<rparr>"

definition buildSSAProgram :: "loader_Program \<Rightarrow> world \<Rightarrow> ssa_Program \<times> world" where
  "buildSSAProgram lprog w =
     (let ssaProg = ssautil_CreateProgram lprog GlobalDebug;
          w1 = record_effect CreateProgram w;
          ssaProg' = ssaProg\<lparr>ssa_built := True\<rparr>;
          w2 = record_effect BuildSSA w1
      in (ssaProg', w2))"

section \<open>Compiler root\<close>

definition discoverGoRoot :: "externals \<Rightarrow> world \<Rightarrow> (error + string) \<times> world" where
  "discoverGoRoot ext w =
     (let goroot = environ w ''GOROOT''
      in if goroot \<noteq> '''' then (Inr goroot, w)
         else
           (let w1 = record_effect Exec_go_env_GOROOT w
            in (case exec_go_env_GOROOT ext of
                  Inl err \<Rightarrow> (Inl (CantExecuteGoEnv err), w1)
                | Inr output \<Rightarrow> (Inr (strings_TrimSpace ext output), w1))))"

section \<open>Loading the context\<close>

text \<open>
  \<^verbatim>\<open>separateNotCompilingPackages\<close> dereferences \<^verbatim>\<open>lintCtx.Program\<close>: on a nil program the
  Go run time panics, which is the result \<open>Panic\<close> here.
\<close>

datatype 'a or_panic = Panic | Returned 'a

definition separateNotCompilingPackages :: "linter_Context \<Rightarrow> linter_Context or_panic" where
  "separateNotCompilingPackages lintCtx =
     (case Program lintCtx of
        None \<Rightarrow> Panic
      | Some prog \<Rightarrow>
          (let (prog', notCompiling) = separateProgram prog (NotCompilingPackages lintCtx)
           in Returned (lintCtx\<lparr>Program := Some prog', NotCompilingPackages := notCompiling\<rparr>)))"

text \<open>
  \<^verbatim>\<open>LoadContext\<close> returns the context or an error, and the world it leaves behind. It
  drops the error that \<^verbatim>\<open>os.Setenv\<close> returns. A
  panic inside it would be the result \<open>Panic\<close>.
\<close>

definition LoadContext ::
  "externals \<Rightarrow> linter_Config list \<Rightarrow> config_Config \<Rightarrow> world \<Rightarrow>
   (error + linter_Context) or_panic \<times> world" where
  "LoadContext ext linters cfg w0 =
     (case discoverGoRoot ext w0 of
        (Inl err, w1) \<Rightarrow> (Returned (Inl (CantDiscoverGOROOT err)), w1)
      | (Inr goroot, w1) \<Rightarrow>
          (let w2 = snd (os_Setenv ''GOROOT'' goroot w1);
               w3 = record_effect (Assign_build_Default_GOROOT goroot)
                      (w2\<lparr>build_Default_GOROOT := goroot\<rparr>);
               args = (if length (Args (Run cfg)) = 0 then [''./...''] else Args (Run cfg));
               skipDirs = ([] @ packages_StdExcludeDirRegexps ext) @ SkipDirs (Run cfg);
               w4 = record_effect (NewResolver (BuildTags (Run cfg)) skipDirs) w3
           in (case packages_NewResolver ext (BuildTags (Run cfg)) skipDirs of
                 Inl err \<Rightarrow> (Returned (Inl err), w4)
               | Inr r \<Rightarrow>
                   (let w5 = record_effect (Resolve args) w4
                    in (case Resolver_Resolve ext r args of
                          Inl err \<Rightarrow> (Returned (Inl err), w5)
                        | Inr pkgProg \<Rightarrow>
                            (case loadWholeAppIfNeeded ext linters (Run cfg) pkgProg w5 of
                               (Inl err, w6) \<Rightarrow> (Returned (Inl err), w6)
                             | (Inr (prog, loaderConfig), w6) \<Rightarrow>
                                 (let (ssaProg, w7) =
                                        (case prog of
                                           None \<Rightarrow> (None, w6)
                                         | Some lprog \<Rightarrow>
                                             if isSSAReprNeeded linters
                                             then (let (s, w') = buildSSAProgram lprog w6
                                                   in (Some s, w'))
                                             else (None, w6));
                                      (astCache, w8) =
                                        (case prog of
                                           Some lprog \<Rightarrow>
                                             (astcache_LoadFromProgram ext lprog,
                                              record_effect LoadFromProgram w7)
                                         | None \<Rightarrow>
                                             (let files = Files pkgProg (AnalyzeTests (Run cfg))
                                              in (astcache_LoadFromFiles ext files,
                                                  record_effect (LoadFromFiles files) w7)))
                                  in (case astCache of
                                        Inl err \<Rightarrow> (Returned (Inl err), w8)
                                      | Inr cache \<Rightarrow>
                                          (let ret = \<lparr>PkgProgram = pkgProg, Cfg = cfg,
                                                      Program = prog, SSAProgram = ssaProg,
                                                      LoaderConfig = loaderConfig,
                                                      ASTCache = cache,
                                                      NotCompilingPackages = []\<rparr>
                                           in (case prog of
                                                 None \<Rightarrow> (Returned (Inr ret), w8)
                                               | Some _ \<Rightarrow>
                                                   (case separateNotCompilingPackages ret of
                                                      Panic \<Rightarrow> (Panic, w8)
                                                    | Returned ret' \<Rightarrow>
                                                        (Returned (Inr ret'), w8))))))))))))"

section \<open>The vet analyzer\<close>

record result_Issue =
  Issue_Pos :: token_Position
  Text :: string
  FromLinter :: string

definition Govet_Name :: string where
  "Govet_Name = ''govet''"

text \<open>
  \<^verbatim>\<open>lintCtx.Settings()\<close> is declared with the context, in package
  \<^verbatim>\<open>pkg/lint/linter\<close>: it gives the linters' settings of the configuration.
\<close>

definition Settings :: "linter_Context \<Rightarrow> config_LintersSettings" where
  "Settings lintCtx = LintersSettings (Cfg lintCtx)"

text \<open>
  The first loop of \<^verbatim>\<open>Govet.Run\<close>: \<open>Inl err\<close> is the \<^verbatim>\<open>return nil, err\<close> inside it.
\<close>

fun govetPackages ::
  "externals \<Rightarrow> linter_Context \<Rightarrow> packages_Package list \<Rightarrow> govetAPI_Issue list \<Rightarrow>
   error + govetAPI_Issue list" where
  "govetPackages ext lintCtx [] govetIssues = Inr govetIssues"
| "govetPackages ext lintCtx (pkg # pkgs) govetIssues =
     (case govetAPI_Run ext (Package_Files pkg (AnalyzeTests (Run (Cfg lintCtx))))
             (Govet_CheckShadowing (Settings lintCtx)) of
        Inl err \<Rightarrow> Inl err
      | Inr issues \<Rightarrow> govetPackages ext lintCtx pkgs (govetIssues @ issues))"

fun govetResults :: "govetAPI_Issue list \<Rightarrow> result_Issue list \<Rightarrow> result_Issue list" where
  "govetResults [] res = res"
| "govetResults (i # is) res =
     govetResults is (res @ [\<lparr>Issue_Pos = Pos i, Text = Message i, FromLinter = Govet_Name\<rparr>])"

text \<open>
  The result is the pair that Go returns: the findings (\<open>None\<close> is the nil slice) and the
  error (\<open>None\<close> is the nil error).
\<close>

definition Govet_Run ::
  "externals \<Rightarrow> linter_Context \<Rightarrow> result_Issue list option \<times> error option" where
  "Govet_Run ext lintCtx =
     (case govetPackages ext lintCtx (Packages (PkgProgram lintCtx)) [] of
        Inl err \<Rightarrow> (None, Some err)
      | Inr govetIssues \<Rightarrow>
          if length govetIssues = 0 then (None, None)
          else (Some (govetResults govetIssues []), None))"

section \<open>Default exclusion rules\<close>

record config_ExcludePattern =
  Pattern :: string
  Linter :: string
  Why :: string

definition backslash :: string where
  "backslash = [CHR 0x5C]"

definition apostrophe :: string where
  "apostrophe = [CHR 0x27]"

definition DefaultExcludePatterns :: "config_ExcludePattern list" where
  "DefaultExcludePatterns =
   [\<lparr>Pattern = ''Error return value of .((os'' @ backslash @ ''.)?std(out|err)'' @ backslash
        @ ''..*|.*Close|.*Flush|os'' @ backslash @ ''.Remove(All)?|.*printf?|os'' @ backslash
        @ ''.(Un)?Setenv). is not checked'',
      Linter = ''errcheck'',
      Why = ''Almost all programs ignore errors on these functions and in most cases it''
        @ apostrophe @ ''s ok''\<rparr>,
    \<lparr>Pattern = ''(comment on exported (method|function)|should have( a package)? comment|comment should be of the form)'',
      Linter = ''golint'',
      Why = ''Annoying issue about not having a comment. The rare codebase has such comments''\<rparr>,
    \<lparr>Pattern = ''func name will be used as test'' @ backslash
        @ ''.Test.* by other packages, and that stutters; consider calling this'',
      Linter = ''golint'',
      Why = ''False positive when tests are defined in package '' @ apostrophe @ ''test''
        @ apostrophe\<rparr>,
    \<lparr>Pattern = ''Use of unsafe calls should be audited'',
      Linter = ''gas'',
      Why = ''Too many false-positives on '' @ apostrophe @ ''unsafe'' @ apostrophe
        @ '' usage''\<rparr>,
    \<lparr>Pattern = ''Subprocess launch(ed with variable|ing should be audited)'',
      Linter = ''gas'',
      Why = ''Too many false-positives for parametrized shell calls''\<rparr>,
    \<lparr>Pattern = ''G104'',
      Linter = ''gas'',
      Why = ''Duplicated errcheck checks''\<rparr>,
    \<lparr>Pattern = ''(Expect directory permissions to be 0750 or less|Expect file permissions to be 0600 or less)'',
      Linter = ''gas'',
      Why = ''Too many issues in popular repos''\<rparr>,
    \<lparr>Pattern = ''Potential file inclusion via variable'',
      Linter = ''gas'',
      Why = ''False positive is triggered by '' @ apostrophe
        @ ''src, err := ioutil.ReadFile(filename)'' @ apostrophe\<rparr>,
    \<lparr>Pattern = ''(possible misuse of unsafe.Pointer|should have signature)'',
      Linter = ''govet'',
      Why = ''Common false positives''\<rparr>,
    \<lparr>Pattern = ''ineffective break statement. Did you mean to break out of the outer loop'',
      Linter = ''megacheck'',
      Why = ''Developers tend to write in C-style with an explicit '' @ apostrophe @ ''break''
        @ apostrophe @ '' in a '' @ apostrophe @ ''switch'' @ apostrophe
        @ '', so it'' @ apostrophe @ ''s ok to ignore''\<rparr>]"

text \<open>
  \<^verbatim>\<open>GetDefaultExcludePatternsStrings\<close> appends the pattern of every rule to a nil slice.
\<close>

fun appendPatterns :: "config_ExcludePattern list \<Rightarrow> string list \<Rightarrow> string list" where
  "appendPatterns [] ret = ret"
| "appendPatterns (p # ps) ret = appendPatterns ps (ret @ [Pattern p])"

definition GetDefaultExcludePatternsStrings :: "string list" where
  "GetDefaultExcludePatternsStrings = appendPatterns DefaultExcludePatterns []"

subsection \<open>Compiling a pattern\<close>

text \<open>
  Modelled from the spec: the code that compiles the exclusion patterns (the exclusion
  stage and the regular-expression compiler it calls) is missing from the sources; the
  spec says that the pattern of a rule is a regular expression that must compile.
  \<open>regexp_Compile\<close> checks a pattern against a fragment of the regular-expression syntax:
  literal characters, \<^verbatim>\<open>.\<close>, a backslash before a character that is not a letter or a
  digit, groups in parentheses, alternation with \<^verbatim>\<open>|\<close>, the postfix operators
  \<^verbatim>\<open>*\<close>, \<^verbatim>\<open>+\<close>, \<^verbatim>\<open>?\<close> and a \<^verbatim>\<open>?\<close> after one of them. It answers \<open>None\<close> when the
  pattern compiles and the error otherwise; \<open>Unsupported\<close> is a pattern outside the
  fragment (character classes, counted repetition, anchors, group flags, bytes outside
  ASCII), about which the model says nothing.

  The scan keeps the number of open groups and what the previous item was.
\<close>

datatype regexp_error =
    MissingParen
  | UnexpectedParen
  | MissingRepeatArgument
  | InvalidNestedRepetition
  | TrailingBackslash
  | InvalidEscape
  | Unsupported

datatype regexp_prev = AtStart | AfterAtom | AfterRepeat | AfterLazy

definition isalnum :: "char \<Rightarrow> bool" where
  "isalnum c =
     ((of_char c :: nat) \<in> {of_char (CHR ''0'') .. of_char (CHR ''9'')}
      \<or> (of_char c :: nat) \<in> {of_char (CHR ''A'') .. of_char (CHR ''Z'')}
      \<or> (of_char c :: nat) \<in> {of_char (CHR ''a'') .. of_char (CHR ''z'')})"

fun regexp_scan :: "nat \<Rightarrow> regexp_prev \<Rightarrow> string \<Rightarrow> regexp_error option" where
  "regexp_scan depth prev [] = (if depth = 0 then None else Some MissingParen)"
| "regexp_scan depth prev (c # cs) =
     (if c = CHR ''('' then
        (case cs of
           d # _ \<Rightarrow> if d = CHR ''?'' then Some Unsupported
                    else regexp_scan (Suc depth) AtStart cs
         | [] \<Rightarrow> regexp_scan (Suc depth) AtStart cs)
      else if c = CHR '')'' then
        (if depth = 0 then Some UnexpectedParen else regexp_scan (depth - 1) AfterAtom cs)
      else if c = CHR ''|'' then regexp_scan depth AtStart cs
      else if c = CHR ''*'' \<or> c = CHR ''+'' \<or> c = CHR ''?'' then
        (case prev of
           AtStart \<Rightarrow> Some MissingRepeatArgument
         | AfterAtom \<Rightarrow> regexp_scan depth AfterRepeat cs
         | AfterRepeat \<Rightarrow>
             if c = CHR ''?'' then regexp_scan depth AfterLazy cs
             else Some InvalidNestedRepetition
         | AfterLazy \<Rightarrow> Some InvalidNestedRepetition)
      else if c = CHR 0x5C then
        (case cs of
           [] \<Rightarrow> Some TrailingBackslash
         | e # es \<Rightarrow>
             if (of_char e :: nat) < 128 \<and> \<not> isalnum e then regexp_scan depth AfterAtom es
             else if (of_char e :: nat) < 128 then Some Unsupported
             else Some InvalidEscape)
      else if c = CHR ''['' \<or> c = CHR ''{'' \<or> c = CHR ''^'' \<or> c = CHR ''$''
              \<or> 128 \<le> (of_char c :: nat)
      then Some Unsupported
      else regexp_scan depth AfterAtom cs)"

definition regexp_Compile :: "string \<Rightarrow> regexp_error option" where
  "regexp_Compile pattern = regexp_scan 0 AtStart pattern"

section \<open>An example run\<close>

definition example_pkgProg :: packages_Program where
  "example_pkgProg =
     \<lparr>BuildContext = \<lparr>GOROOT = ''/usr/local/go'', Context_BuildTags = []\<rparr>,
      Dirs = [''svc''],
      Files = (\<lambda>tests. if tests then [''svc/a.go'', ''svc/a_test.go''] else [''svc/a.go'']),
      Packages = [\<lparr>Package_Files = (\<lambda>tests. [''svc/a.go''])\<rparr>,
                  \<lparr>Package_Files = (\<lambda>tests. [''lib/b.go''])\<rparr>]\<rparr>"

definition example_cfg :: config_Config where
  "example_cfg =
     \<lparr>Run = \<lparr>Args = [''./svc''], BuildTags = [], AnalyzeTests = True, SkipDirs = []\<rparr>,
      LintersSettings = \<lparr>Govet_CheckShadowing = False\<rparr>\<rparr>"

definition example_prog :: loader_Program where
  "example_prog =
     \<lparr>Created = Some [\<lparr>Pkg = ''svc'', Errors = []\<rparr>,
                      \<lparr>Pkg = ''svc_test'', Errors = [''undefined: x'']\<rparr>],
      Imported = Some [(''lib/b'', \<lparr>Pkg = ''lib/b'', Errors = [''missing return'']\<rparr>),
                       (''lib/c'', \<lparr>Pkg = ''lib/c'', Errors = []\<rparr>)]\<rparr>"

definition example_lintCtx :: linter_Context where
  "example_lintCtx =
     \<lparr>PkgProgram = example_pkgProg, Cfg = example_cfg, Program = Some example_prog,
      SSAProgram = None, LoaderConfig = None, ASTCache = Cache [],
      NotCompilingPackages = []\<rparr>"

definition example_linters :: "linter_Config list" where
  "example_linters =
     [\<lparr>LinterName = ''govet'', NeedsProgramLoading = False, NeedsSSARepresentation = False\<rparr>,
      \<lparr>LinterName = ''megacheck'', NeedsProgramLoading = True, NeedsSSARepresentation = True\<rparr>]"

text \<open>
  An operating system and libraries to run the functions on: a working directory, Unix
  paths, a toolchain that answers with its root, a resolver and a loader that succeed, and
  a vet analysis that fails on one package.
\<close>

definition example_ext :: externals where
  "example_ext =
     \<lparr>os_Getwd = Inr ''/home/dev/proj'',
      filepath_IsAbs = (\<lambda>p. prefix ''/'' p),
      filepath_Rel = (\<lambda>root p.
         if prefix (root @ ''/'') p then Inr (drop (length root + 1) p)
         else Inl (External ''Rel: can not make the path relative'')),
      exec_go_env_GOROOT = Inr ''/usr/local/go '',
      strings_TrimSpace = (\<lambda>s. rev (dropWhile (\<lambda>c. c = CHR '' '') (rev (dropWhile (\<lambda>c. c = CHR '' '') s)))),
      packages_StdExcludeDirRegexps = [''vendor$''],
      packages_NewResolver = (\<lambda>tags skip. Inr (Resolver tags skip)),
      Resolver_Resolve = (\<lambda>r args. Inr example_pkgProg),
      Config_FromArgs = (\<lambda>c args tests. Inr ([], c\<lparr>ImportPkgs := args\<rparr>)),
      Config_Load = (\<lambda>c. Inr example_prog),
      astcache_LoadFromProgram = (\<lambda>prog. Inr (Cache [''svc/a.go''])),
      astcache_LoadFromFiles = (\<lambda>files. Inr (Cache files)),
      govetAPI_Run = (\<lambda>files shadow.
         if files = [''lib/b.go''] then Inl (External ''vet: can not parse'')
         else Inr [\<lparr>Pos = \<lparr>Filename = ''svc/a.go'', Line = 3, Column = 1\<rparr>,
                    Message = ''unreachable code''\<rparr>])\<rparr>"

text \<open>
  The call that the first loop of \<^verbatim>\<open>Govet.Run\<close> makes for one package.
\<close>

definition govetPackage ::
  "externals \<Rightarrow> linter_Context \<Rightarrow> packages_Package \<Rightarrow> error + govetAPI_Issue list" where
  "govetPackage ext lintCtx pkg =
     govetAPI_Run ext (Package_Files pkg (AnalyzeTests (Run (Cfg lintCtx))))
       (Govet_CheckShadowing (Settings lintCtx))"

definition example_ext_quiet :: externals where
  "example_ext_quiet = example_ext\<lparr>govetAPI_Run := (\<lambda>files shadow. Inr [])\<rparr>"

text \<open>
  A process whose \<^verbatim>\<open>GOROOT\<close> is not set and one whose \<^verbatim>\<open>GOROOT\<close> is set, a machine without
  a toolchain, and an analyzer set that needs no program loading.
\<close>

definition example_world :: world where
  "example_world =
     \<lparr>environ = (\<lambda>name. ''''), build_Default_GOROOT = ''/cross/go'', effects = []\<rparr>"

definition example_world_GOROOT :: world where
  "example_world_GOROOT =
     \<lparr>environ = (\<lambda>name. if name = ''GOROOT'' then ''/opt/go'' else ''''),
      build_Default_GOROOT = ''/cross/go'', effects = []\<rparr>"

definition example_ext_no_toolchain :: externals where
  "example_ext_no_toolchain =
     example_ext\<lparr>exec_go_env_GOROOT := Inl (External ''exec: go: not found'')\<rparr>"

definition example_linters_fast :: "linter_Config list" where
  "example_linters_fast =
     [\<lparr>LinterName = ''govet'', NeedsProgramLoading = False, NeedsSSARepresentation = False\<rparr>]"

text \<open>
  The contexts that \<^verbatim>\<open>LoadContext\<close> builds on the example for the two analyzer sets.
\<close>

definition example_ctx_loaded :: linter_Context where
  "example_ctx_loaded =
     \<lparr>PkgProgram = example_pkgProg, Cfg = example_cfg,
      Program = Some \<lparr>Created = Some [\<lparr>Pkg = ''svc'', Errors = []\<rparr>],
                       Imported = Some [(''lib/c'', \<lparr>Pkg = ''lib/c'', Errors = []\<rparr>)]\<rparr>,
      SSAProgram = Some \<lparr>ssa_prog = example_prog, ssa_mode = GlobalDebug, ssa_built = True\<rparr>,
      LoaderConfig = Some \<lparr>Build = \<lparr>GOROOT = ''/usr/local/go'', Context_BuildTags = []\<rparr>,
                            AllowErrors = True, ParserMode = ParseComments,
                            CreatePkgs = [], ImportPkgs = [''./svc'']\<rparr>,
      ASTCache = Cache [''svc/a.go''],
      NotCompilingPackages = [\<lparr>Pkg = ''svc_test'', Errors = [''undefined: x'']\<rparr>,
                              \<lparr>Pkg = ''lib/b'', Errors = [''missing return'']\<rparr>]\<rparr>"

definition example_ctx_light :: linter_Context where
  "example_ctx_light =
     \<lparr>PkgProgram = example_pkgProg, Cfg = example_cfg, Program = None, SSAProgram = None,
      LoaderConfig = None, ASTCache = Cache [''svc/a.go'', ''svc/a_test.go''],
      NotCompilingPackages = []\<rparr>"

text \<open>
  A toolchain whose answer holds a NUL byte, and a program in which one package that
  compiles is both created and imported.
\<close>

definition example_goroot_nul :: string where
  "example_goroot_nul = ''/usr/local'' @ [CHR 0x00] @ ''/go''"

definition example_ext_nul :: externals where
  "example_ext_nul = example_ext\<lparr>exec_go_env_GOROOT := Inr example_goroot_nul\<rparr>"

definition example_shared_prog :: loader_Program where
  "example_shared_prog =
     \<lparr>Created = Some [\<lparr>Pkg = ''svc'', Errors = []\<rparr>],
      Imported = Some [(''svc'', \<lparr>Pkg = ''svc'', Errors = []\<rparr>)]\<rparr>"

definition example_shared_lintCtx :: linter_Context where
  "example_shared_lintCtx =
     \<lparr>PkgProgram = example_pkgProg, Cfg = example_cfg, Program = Some example_shared_prog,
      SSAProgram = None, LoaderConfig = None, ASTCache = Cache [],
      NotCompilingPackages = []\<rparr>"

section \<open>Properties of the partitioner\<close>

lemma separateCreated_filter:
  "separateCreated infos (nc, cc) =
     (nc @ filter (\<lambda>i. Errors i \<noteq> []) infos, cc @ filter (\<lambda>i. Errors i = []) infos)"
  by (induction infos arbitrary: nc cc) simp_all

lemma map_of_mid:
  "k \<notin> fst ` set pre \<Longrightarrow> map_of (pre @ (k, v) # suf) k = Some v"
  by (induction pre) auto

lemma delete_mid:
  "k \<notin> fst ` set pre \<Longrightarrow> k \<notin> fst ` set suf \<Longrightarrow>
   AList.delete k (pre @ (k, v) # suf) = pre @ suf"
proof -
  assume "k \<notin> fst ` set pre" and "k \<notin> fst ` set suf"
  then have "AList.delete k pre = pre" and "AList.delete k suf = suf"
    by simp_all
  moreover have "AList.delete k (pre @ (k, v) # suf) = AList.delete k pre @ AList.delete k suf"
    by (simp add: AList.delete_eq)
  ultimately show ?thesis by simp
qed

lemma separateImported_suffix:
  "distinct (map fst (pre @ suf)) \<Longrightarrow>
   separateImported (map fst suf) (nc, filter (\<lambda>e. Errors (snd e) = []) pre @ suf) =
     (nc @ filter (\<lambda>i. Errors i \<noteq> []) (map snd suf),
      filter (\<lambda>e. Errors (snd e) = []) (pre @ suf))"
proof (induction suf arbitrary: pre nc)
  case Nil
  then show ?case by simp
next
  case (Cons e suf)
  obtain k info where e: "e = (k, info)" by (cases e)
  let ?ok = "\<lambda>e. Errors (snd e) = []"
  from Cons.prems e have k_pre: "k \<notin> fst ` set (filter ?ok pre)"
    and k_suf: "k \<notin> fst ` set suf"
    and dist: "distinct (map fst ((pre @ [e]) @ suf))"
    by auto
  have look: "map_of (filter ?ok pre @ (k, info) # suf) k = Some info"
    using k_pre by (rule map_of_mid)
  show ?case
  proof (cases "Errors info = []")
    case True
    with Cons.IH [OF dist, of nc] look e show ?thesis by simp
  next
    case False
    have "AList.delete k (filter ?ok pre @ (k, info) # suf) = filter ?ok pre @ suf"
      using k_pre k_suf by (rule delete_mid)
    with False Cons.IH [OF dist, of "nc @ [info]"] look e show ?thesis by simp
  qed
qed

lemma separateImported_filter:
  assumes "distinct (map fst m)"
  shows "separateImported (map fst m) (nc, m) =
     (nc @ filter (\<lambda>i. Errors i \<noteq> []) (map snd m), filter (\<lambda>e. Errors (snd e) = []) m)"
  using separateImported_suffix [of "[]" m nc] assms by simp

lemma separateProgram_filter:
  assumes "wf_Program prog"
  shows "separateProgram prog nc =
     (\<lparr>Created = map_option (filter (\<lambda>i. Errors i = [])) (Created prog),
       Imported = map_option (filter (\<lambda>e. Errors (snd e) = [])) (Imported prog)\<rparr>,
      nc @ filter (\<lambda>i. Errors i \<noteq> []) (createdPackages prog)
         @ filter (\<lambda>i. Errors i \<noteq> []) (importedPackages prog))"
  using assms
  by (cases prog)
     (auto simp: separateProgram_def wf_Program_def createdPackages_def importedPackages_def
        importedEntries_def separateCreated_filter separateImported_filter
        split: option.splits)

lemma separateNotCompilingPackages_Returned:
  assumes "Program lintCtx = Some prog" and "wf_Program prog"
  shows "separateNotCompilingPackages lintCtx =
     Returned (lintCtx\<lparr>Program := Some (fst (separateProgram prog (NotCompilingPackages lintCtx))),
                       NotCompilingPackages := snd (separateProgram prog (NotCompilingPackages lintCtx))\<rparr>)"
  using assms by (simp add: separateNotCompilingPackages_def split: prod.splits)

lemma createdPackages_separateProgram:
  "wf_Program prog \<Longrightarrow>
   createdPackages (fst (separateProgram prog nc)) =
     filter (\<lambda>i. Errors i = []) (createdPackages prog)"
  by (simp add: separateProgram_filter createdPackages_def split: option.splits)

lemma importedEntries_separateProgram:
  "wf_Program prog \<Longrightarrow>
   importedEntries (fst (separateProgram prog nc)) =
     filter (\<lambda>e. Errors (snd e) = []) (importedEntries prog)"
  by (simp add: separateProgram_filter importedEntries_def split: option.splits)

lemma importedPackages_separateProgram:
  "wf_Program prog \<Longrightarrow>
   importedPackages (fst (separateProgram prog nc)) =
     filter (\<lambda>i. Errors i = []) (importedPackages prog)"
  by (simp add: importedPackages_def importedEntries_separateProgram filter_map comp_def)

lemma notCompiling_separateProgram:
  "wf_Program prog \<Longrightarrow>
   snd (separateProgram prog nc) =
     nc @ filter (\<lambda>i. Errors i \<noteq> []) (createdPackages prog)
        @ filter (\<lambda>i. Errors i \<noteq> []) (importedPackages prog)"
  by (simp add: separateProgram_filter)

text \<open>
  Claim C1. After \<^verbatim>\<open>separateNotCompilingPackages\<close> has run on a context whose program is
  loaded, every package of the created list or of the imported map that carries one or
  more compile errors is in \<^verbatim>\<open>NotCompilingPackages\<close>, and no package with compile errors is
  left in the created list or in the imported map. Every package with zero compile
  errors stays where it was: a created package in the created list, an imported entry in
  the imported map under its key. Nothing enters the created list or the map, and a
  package is in the side list afterwards only if it was there before or it has compile
  errors.
\<close>

theorem separateNotCompilingPackages_partition:
  assumes prog: "Program lintCtx = Some prog" and wf: "wf_Program prog"
  shows "\<exists>lintCtx' prog'.
     separateNotCompilingPackages lintCtx = Returned lintCtx' \<and> Program lintCtx' = Some prog' \<and>
     (\<forall>p \<in> set (createdPackages prog) \<union> set (importedPackages prog).
        Errors p \<noteq> [] \<longrightarrow> p \<in> set (NotCompilingPackages lintCtx')) \<and>
     (\<forall>p. Errors p \<noteq> [] \<longrightarrow>
        p \<notin> set (createdPackages prog') \<and> p \<notin> set (importedPackages prog')) \<and>
     (\<forall>p \<in> set (createdPackages prog). Errors p = [] \<longrightarrow> p \<in> set (createdPackages prog')) \<and>
     (\<forall>e \<in> set (importedEntries prog).
        Errors (snd e) = [] \<longrightarrow> e \<in> set (importedEntries prog')) \<and>
     set (createdPackages prog') \<subseteq> set (createdPackages prog) \<and>
     set (importedEntries prog') \<subseteq> set (importedEntries prog) \<and>
     (\<forall>p \<in> set (NotCompilingPackages lintCtx').
        p \<in> set (NotCompilingPackages lintCtx) \<or> Errors p \<noteq> [])"
proof -
  let ?nc = "NotCompilingPackages lintCtx"
  let ?prog' = "fst (separateProgram prog ?nc)"
  let ?ctx' = "lintCtx\<lparr>Program := Some ?prog', NotCompilingPackages := snd (separateProgram prog ?nc)\<rparr>"
  have ret: "separateNotCompilingPackages lintCtx = Returned ?ctx'"
    using prog wf by (rule separateNotCompilingPackages_Returned)
  have c: "createdPackages ?prog' = filter (\<lambda>i. Errors i = []) (createdPackages prog)"
    using wf by (rule createdPackages_separateProgram)
  have e: "importedEntries ?prog' = filter (\<lambda>e. Errors (snd e) = []) (importedEntries prog)"
    using wf by (rule importedEntries_separateProgram)
  have i: "importedPackages ?prog' = filter (\<lambda>i. Errors i = []) (importedPackages prog)"
    using wf by (rule importedPackages_separateProgram)
  have n: "NotCompilingPackages ?ctx' =
      ?nc @ filter (\<lambda>i. Errors i \<noteq> []) (createdPackages prog)
          @ filter (\<lambda>i. Errors i \<noteq> []) (importedPackages prog)"
    using wf by (simp add: notCompiling_separateProgram)
  have "Program ?ctx' = Some ?prog'" by simp
  moreover have "\<forall>p \<in> set (createdPackages prog) \<union> set (importedPackages prog).
        Errors p \<noteq> [] \<longrightarrow> p \<in> set (NotCompilingPackages ?ctx')"
    unfolding n by auto
  moreover have "\<forall>p. Errors p \<noteq> [] \<longrightarrow>
        p \<notin> set (createdPackages ?prog') \<and> p \<notin> set (importedPackages ?prog')"
    unfolding c i by simp
  moreover have "\<forall>p \<in> set (createdPackages prog). Errors p = [] \<longrightarrow> p \<in> set (createdPackages ?prog')"
    unfolding c by simp
  moreover have "\<forall>e \<in> set (importedEntries prog).
        Errors (snd e) = [] \<longrightarrow> e \<in> set (importedEntries ?prog')"
    unfolding e by simp
  moreover have "set (createdPackages ?prog') \<subseteq> set (createdPackages prog)"
    unfolding c by auto
  moreover have "set (importedEntries ?prog') \<subseteq> set (importedEntries prog)"
    unfolding e by auto
  moreover have "\<forall>p \<in> set (NotCompilingPackages ?ctx').
        p \<in> set ?nc \<or> Errors p \<noteq> []"
    unfolding n by auto
  ultimately show ?thesis using ret by blast
qed

lemma example_prog_facts:
  "Program example_lintCtx = Some example_prog" "wf_Program example_prog"
  by (simp_all add: example_lintCtx_def example_prog_def wf_Program_def)

lemma example_prog_members:
  "\<lparr>Pkg = ''svc'', Errors = []\<rparr> \<in> set (createdPackages example_prog)"
  "\<lparr>Pkg = ''svc_test'', Errors = [''undefined: x'']\<rparr> \<in> set (createdPackages example_prog)"
  "\<lparr>Pkg = ''lib/b'', Errors = [''missing return'']\<rparr> \<in> set (importedPackages example_prog)"
  "(''lib/c'', \<lparr>Pkg = ''lib/c'', Errors = []\<rparr>) \<in> set (importedEntries example_prog)"
  "NotCompilingPackages example_lintCtx = []"
  by (simp_all add: example_prog_def example_lintCtx_def createdPackages_def
      importedPackages_def importedEntries_def)

theorem separateNotCompilingPackages_partition_witness:
  "Program example_lintCtx = Some example_prog \<and> wf_Program example_prog \<and>
   (\<exists>lintCtx' prog'.
     separateNotCompilingPackages example_lintCtx = Returned lintCtx' \<and>
     Program lintCtx' = Some prog' \<and>
     \<lparr>Pkg = ''svc_test'', Errors = [''undefined: x'']\<rparr> \<in> set (NotCompilingPackages lintCtx') \<and>
     \<lparr>Pkg = ''svc_test'', Errors = [''undefined: x'']\<rparr> \<notin> set (createdPackages prog') \<and>
     \<lparr>Pkg = ''lib/b'', Errors = [''missing return'']\<rparr> \<in> set (NotCompilingPackages lintCtx') \<and>
     \<lparr>Pkg = ''lib/b'', Errors = [''missing return'']\<rparr> \<notin> set (importedPackages prog') \<and>
     \<lparr>Pkg = ''svc'', Errors = []\<rparr> \<in> set (createdPackages prog') \<and>
     \<lparr>Pkg = ''svc'', Errors = []\<rparr> \<notin> set (NotCompilingPackages lintCtx') \<and>
     (''lib/c'', \<lparr>Pkg = ''lib/c'', Errors = []\<rparr>) \<in> set (importedEntries prog'))"
proof -
  let ?svc = "\<lparr>Pkg = ''svc'', Errors = []\<rparr>"
  let ?test = "\<lparr>Pkg = ''svc_test'', Errors = [''undefined: x'']\<rparr>"
  let ?b = "\<lparr>Pkg = ''lib/b'', Errors = [''missing return'']\<rparr>"
  let ?c = "(''lib/c'', \<lparr>Pkg = ''lib/c'', Errors = []\<rparr>)"
  note m = example_prog_members
  from separateNotCompilingPackages_partition [OF example_prog_facts]
  obtain lintCtx' prog' where ret: "separateNotCompilingPackages example_lintCtx = Returned lintCtx'"
    and prog': "Program lintCtx' = Some prog'"
    and moved: "\<forall>p \<in> set (createdPackages example_prog) \<union> set (importedPackages example_prog).
        Errors p \<noteq> [] \<longrightarrow> p \<in> set (NotCompilingPackages lintCtx')"
    and gone: "\<forall>p. Errors p \<noteq> [] \<longrightarrow>
        p \<notin> set (createdPackages prog') \<and> p \<notin> set (importedPackages prog')"
    and created: "\<forall>p \<in> set (createdPackages example_prog).
        Errors p = [] \<longrightarrow> p \<in> set (createdPackages prog')"
    and imported: "\<forall>e \<in> set (importedEntries example_prog).
        Errors (snd e) = [] \<longrightarrow> e \<in> set (importedEntries prog')"
    and side: "\<forall>p \<in> set (NotCompilingPackages lintCtx').
        p \<in> set (NotCompilingPackages example_lintCtx) \<or> Errors p \<noteq> []"
    by blast
  from moved m(2) have t1: "?test \<in> set (NotCompilingPackages lintCtx')" by simp
  from gone have t2: "?test \<notin> set (createdPackages prog')" by simp
  from moved m(3) have b1: "?b \<in> set (NotCompilingPackages lintCtx')" by simp
  from gone have b2: "?b \<notin> set (importedPackages prog')" by simp
  from created m(1) have s1: "?svc \<in> set (createdPackages prog')" by simp
  from side m(5) have s2: "?svc \<notin> set (NotCompilingPackages lintCtx')" by auto
  from imported m(4) have c1: "?c \<in> set (importedEntries prog')" by simp
  from ret prog' t1 t2 b1 b2 s1 s2 c1 example_prog_facts show ?thesis by blast
qed

text \<open>The partition of the example program, computed.\<close>

lemma example_partition_computed:
  "separateNotCompilingPackages example_lintCtx =
     Returned (example_lintCtx
       \<lparr>Program := Some \<lparr>Created = Some [\<lparr>Pkg = ''svc'', Errors = []\<rparr>],
                          Imported = Some [(''lib/c'', \<lparr>Pkg = ''lib/c'', Errors = []\<rparr>)]\<rparr>,
        NotCompilingPackages := [\<lparr>Pkg = ''svc_test'', Errors = [''undefined: x'']\<rparr>,
                                 \<lparr>Pkg = ''lib/b'', Errors = [''missing return'']\<rparr>]\<rparr>)"
  by (simp add: separateNotCompilingPackages_def example_lintCtx_def example_prog_def
      separateProgram_def AList.delete_eq)

section \<open>Properties of the capability query\<close>

text \<open>
  Claim C2. For every list of analyzer configurations, \<^verbatim>\<open>isFullImportNeeded\<close> is true if
  and only if at least one analyzer of the list declares that it needs program loading,
  and \<^verbatim>\<open>isSSAReprNeeded\<close> is true if and only if at least one declares that it needs the
  SSA representation. Both are functions of the list alone: they take no state and
  return none.
\<close>

theorem capability_query:
  "(isFullImportNeeded linters \<longleftrightarrow> (\<exists>l \<in> set linters. NeedsProgramLoading l)) \<and>
   (isSSAReprNeeded linters \<longleftrightarrow> (\<exists>l \<in> set linters. NeedsSSARepresentation l))"
  by (induction linters) auto

theorem capability_query_witness:
  "isFullImportNeeded example_linters \<and> (\<exists>l \<in> set example_linters. NeedsProgramLoading l) \<and>
   isSSAReprNeeded example_linters \<and> (\<exists>l \<in> set example_linters. NeedsSSARepresentation l) \<and>
   \<not> isFullImportNeeded (take 1 example_linters) \<and> \<not> isSSAReprNeeded (take 1 example_linters)"
  using capability_query [of example_linters] capability_query [of "take 1 example_linters"]
  by (simp add: example_linters_def)

lemma mset_filter_split:
  "mset (filter (\<lambda>i. Errors i = []) xs) + mset (filter (\<lambda>i. Errors i \<noteq> []) xs) = mset xs"
  by (induction xs) simp_all

section \<open>Conservation of packages by the partitioner\<close>

text \<open>
  Claim C9, as amended. \<^verbatim>\<open>separateNotCompilingPackages\<close> neither drops nor duplicates packages: the
  created list, the values of the imported map and the side list hold together the same
  packages, each as often, after the call as before. The created list afterwards is the
  created list before without the packages that have compile errors, in the same order.
  The side list before is a prefix of the side list afterwards. When a package is one
  object held in one place at entry (no package is both created and imported, and none of
  them is in the side list already), every package of the created list or of the imported
  map is afterwards in exactly one of the created list, the imported map and the side
  list.
\<close>

theorem separateNotCompilingPackages_conserves:
  assumes prog: "Program lintCtx = Some prog" and wf: "wf_Program prog"
  shows "\<exists>lintCtx' prog'.
     separateNotCompilingPackages lintCtx = Returned lintCtx' \<and> Program lintCtx' = Some prog' \<and>
     mset (createdPackages prog') + mset (importedPackages prog')
         + mset (NotCompilingPackages lintCtx')
       = mset (createdPackages prog) + mset (importedPackages prog)
         + mset (NotCompilingPackages lintCtx) \<and>
     createdPackages prog' = filter (\<lambda>p. Errors p = []) (createdPackages prog) \<and>
     prefix (NotCompilingPackages lintCtx) (NotCompilingPackages lintCtx') \<and>
     (set (createdPackages prog) \<inter> set (importedPackages prog) = {} \<and>
      set (NotCompilingPackages lintCtx)
        \<inter> (set (createdPackages prog) \<union> set (importedPackages prog)) = {} \<longrightarrow>
      (\<forall>p \<in> set (createdPackages prog) \<union> set (importedPackages prog).
         (p \<in> set (createdPackages prog') \<and> p \<notin> set (importedPackages prog')
            \<and> p \<notin> set (NotCompilingPackages lintCtx')) \<or>
         (p \<notin> set (createdPackages prog') \<and> p \<in> set (importedPackages prog')
            \<and> p \<notin> set (NotCompilingPackages lintCtx')) \<or>
         (p \<notin> set (createdPackages prog') \<and> p \<notin> set (importedPackages prog')
            \<and> p \<in> set (NotCompilingPackages lintCtx'))))"
proof -
  let ?nc = "NotCompilingPackages lintCtx"
  let ?cs = "createdPackages prog"
  let ?is = "importedPackages prog"
  let ?prog' = "fst (separateProgram prog ?nc)"
  let ?ctx' = "lintCtx\<lparr>Program := Some ?prog', NotCompilingPackages := snd (separateProgram prog ?nc)\<rparr>"
  have ret: "separateNotCompilingPackages lintCtx = Returned ?ctx'"
    using prog wf by (rule separateNotCompilingPackages_Returned)
  have c: "createdPackages ?prog' = filter (\<lambda>i. Errors i = []) ?cs"
    using wf by (rule createdPackages_separateProgram)
  have i: "importedPackages ?prog' = filter (\<lambda>i. Errors i = []) ?is"
    using wf by (rule importedPackages_separateProgram)
  have n: "NotCompilingPackages ?ctx' =
      ?nc @ filter (\<lambda>i. Errors i \<noteq> []) ?cs @ filter (\<lambda>i. Errors i \<noteq> []) ?is"
    using wf by (simp add: notCompiling_separateProgram)
  have p: "Program ?ctx' = Some ?prog'" by simp
  have m: "mset (createdPackages ?prog') + mset (importedPackages ?prog')
         + mset (NotCompilingPackages ?ctx') = mset ?cs + mset ?is + mset ?nc"
  proof -
    have "mset (createdPackages ?prog') + mset (importedPackages ?prog')
         + mset (NotCompilingPackages ?ctx')
       = (mset (filter (\<lambda>i. Errors i = []) ?cs) + mset (filter (\<lambda>i. Errors i \<noteq> []) ?cs))
         + (mset (filter (\<lambda>i. Errors i = []) ?is) + mset (filter (\<lambda>i. Errors i \<noteq> []) ?is))
         + mset ?nc"
      unfolding c i n by (simp only: mset_append ac_simps)
    then show ?thesis by (simp only: mset_filter_split)
  qed
  have pre: "prefix ?nc (NotCompilingPackages ?ctx')"
    unfolding n by simp
  have one: "\<forall>p \<in> set ?cs \<union> set ?is.
         (p \<in> set (createdPackages ?prog') \<and> p \<notin> set (importedPackages ?prog')
            \<and> p \<notin> set (NotCompilingPackages ?ctx')) \<or>
         (p \<notin> set (createdPackages ?prog') \<and> p \<in> set (importedPackages ?prog')
            \<and> p \<notin> set (NotCompilingPackages ?ctx')) \<or>
         (p \<notin> set (createdPackages ?prog') \<and> p \<notin> set (importedPackages ?prog')
            \<and> p \<in> set (NotCompilingPackages ?ctx'))"
    if d1: "set ?cs \<inter> set ?is = {}" and d2: "set ?nc \<inter> (set ?cs \<union> set ?is) = {}"
    unfolding c i n using d1 d2 by auto
  from ret p m c pre one show ?thesis by blast
qed

lemma example_disjoint:
  "set (createdPackages example_prog) \<inter> set (importedPackages example_prog) = {}"
  "set (NotCompilingPackages example_lintCtx)
     \<inter> (set (createdPackages example_prog) \<union> set (importedPackages example_prog)) = {}"
  by (simp_all add: example_lintCtx_def example_prog_def createdPackages_def
      importedPackages_def importedEntries_def)

theorem separateNotCompilingPackages_conserves_witness:
  "Program example_lintCtx = Some example_prog \<and> wf_Program example_prog \<and>
   set (createdPackages example_prog) \<inter> set (importedPackages example_prog) = {} \<and>
   set (NotCompilingPackages example_lintCtx)
     \<inter> (set (createdPackages example_prog) \<union> set (importedPackages example_prog)) = {} \<and>
   (\<exists>lintCtx' prog'.
     separateNotCompilingPackages example_lintCtx = Returned lintCtx' \<and>
     Program lintCtx' = Some prog' \<and>
     mset (createdPackages prog') + mset (importedPackages prog')
         + mset (NotCompilingPackages lintCtx')
       = mset (createdPackages example_prog) + mset (importedPackages example_prog)
         + mset (NotCompilingPackages example_lintCtx) \<and>
     createdPackages prog' = [\<lparr>Pkg = ''svc'', Errors = []\<rparr>] \<and>
     prefix (NotCompilingPackages example_lintCtx) (NotCompilingPackages lintCtx') \<and>
     (\<forall>p \<in> set (createdPackages example_prog) \<union> set (importedPackages example_prog).
         (p \<in> set (createdPackages prog') \<and> p \<notin> set (importedPackages prog')
            \<and> p \<notin> set (NotCompilingPackages lintCtx')) \<or>
         (p \<notin> set (createdPackages prog') \<and> p \<in> set (importedPackages prog')
            \<and> p \<notin> set (NotCompilingPackages lintCtx')) \<or>
         (p \<notin> set (createdPackages prog') \<and> p \<notin> set (importedPackages prog')
            \<and> p \<in> set (NotCompilingPackages lintCtx'))))"
proof -
  from separateNotCompilingPackages_conserves [OF example_prog_facts]
  obtain lintCtx' prog' where ret: "separateNotCompilingPackages example_lintCtx = Returned lintCtx'"
    and prog': "Program lintCtx' = Some prog'"
    and same: "mset (createdPackages prog') + mset (importedPackages prog')
         + mset (NotCompilingPackages lintCtx')
       = mset (createdPackages example_prog) + mset (importedPackages example_prog)
         + mset (NotCompilingPackages example_lintCtx)"
    and order: "createdPackages prog' = filter (\<lambda>p. Errors p = []) (createdPackages example_prog)"
    and grows: "prefix (NotCompilingPackages example_lintCtx) (NotCompilingPackages lintCtx')"
    and one: "set (createdPackages example_prog) \<inter> set (importedPackages example_prog) = {} \<and>
      set (NotCompilingPackages example_lintCtx)
        \<inter> (set (createdPackages example_prog) \<union> set (importedPackages example_prog)) = {} \<longrightarrow>
      (\<forall>p \<in> set (createdPackages example_prog) \<union> set (importedPackages example_prog).
         (p \<in> set (createdPackages prog') \<and> p \<notin> set (importedPackages prog')
            \<and> p \<notin> set (NotCompilingPackages lintCtx')) \<or>
         (p \<notin> set (createdPackages prog') \<and> p \<in> set (importedPackages prog')
            \<and> p \<notin> set (NotCompilingPackages lintCtx')) \<or>
         (p \<notin> set (createdPackages prog') \<and> p \<notin> set (importedPackages prog')
            \<and> p \<in> set (NotCompilingPackages lintCtx')))"
    by blast
  from order have order': "createdPackages prog' = [\<lparr>Pkg = ''svc'', Errors = []\<rparr>]"
    by (simp add: example_prog_def createdPackages_def)
  from one example_disjoint
  have one': "\<forall>p \<in> set (createdPackages example_prog) \<union> set (importedPackages example_prog).
         (p \<in> set (createdPackages prog') \<and> p \<notin> set (importedPackages prog')
            \<and> p \<notin> set (NotCompilingPackages lintCtx')) \<or>
         (p \<notin> set (createdPackages prog') \<and> p \<in> set (importedPackages prog')
            \<and> p \<notin> set (NotCompilingPackages lintCtx')) \<or>
         (p \<notin> set (createdPackages prog') \<and> p \<notin> set (importedPackages prog')
            \<and> p \<in> set (NotCompilingPackages lintCtx'))"
    by (rule mp [OF _ conjI])
  from ret prog' same order' grows one' have "\<exists>lintCtx' prog'.
     separateNotCompilingPackages example_lintCtx = Returned lintCtx' \<and>
     Program lintCtx' = Some prog' \<and>
     mset (createdPackages prog') + mset (importedPackages prog')
         + mset (NotCompilingPackages lintCtx')
       = mset (createdPackages example_prog) + mset (importedPackages example_prog)
         + mset (NotCompilingPackages example_lintCtx) \<and>
     createdPackages prog' = [\<lparr>Pkg = ''svc'', Errors = []\<rparr>] \<and>
     prefix (NotCompilingPackages example_lintCtx) (NotCompilingPackages lintCtx') \<and>
     (\<forall>p \<in> set (createdPackages example_prog) \<union> set (importedPackages example_prog).
         (p \<in> set (createdPackages prog') \<and> p \<notin> set (importedPackages prog')
            \<and> p \<notin> set (NotCompilingPackages lintCtx')) \<or>
         (p \<notin> set (createdPackages prog') \<and> p \<in> set (importedPackages prog')
            \<and> p \<notin> set (NotCompilingPackages lintCtx')) \<or>
         (p \<notin> set (createdPackages prog') \<and> p \<notin> set (importedPackages prog')
            \<and> p \<in> set (NotCompilingPackages lintCtx')))"
    by (intro exI conjI)
  with example_prog_facts example_disjoint show ?thesis
    by (intro conjI)
qed

text \<open>
  Without the condition on the entry the last part fails: a package that compiles and is
  both created and imported is in the created list and in the imported map after the
  call, as it was before.
\<close>

theorem separateNotCompilingPackages_shared_counterexample:
  "Program example_shared_lintCtx = Some example_shared_prog \<and>
   wf_Program example_shared_prog \<and>
   separateNotCompilingPackages example_shared_lintCtx = Returned example_shared_lintCtx \<and>
   \<lparr>Pkg = ''svc'', Errors = []\<rparr> \<in> set (createdPackages example_shared_prog) \<and>
   \<lparr>Pkg = ''svc'', Errors = []\<rparr> \<in> set (importedPackages example_shared_prog)"
  by (simp add: example_shared_lintCtx_def example_shared_prog_def wf_Program_def
      separateNotCompilingPackages_def separateProgram_def createdPackages_def
      importedPackages_def importedEntries_def)

section \<open>Properties of path normalisation\<close>

lemma normalizePathsLoop_Inr:
  "normalizePathsLoop ext root paths acc = Inr ret \<Longrightarrow>
   \<exists>qs. ret = acc @ qs \<and>
     list_all2 (\<lambda>p q. if filepath_IsAbs ext p
                       then (\<exists>relPath. filepath_Rel ext root p = Inr relPath \<and> q = ''./'' @ relPath)
                       else q = ''./'' @ p) paths qs"
proof (induction paths arbitrary: acc)
  case Nil
  then show ?case by simp
next
  case (Cons p paths)
  show ?case
  proof (cases "filepath_IsAbs ext p")
    case True
    with Cons.prems obtain relPath where rel: "filepath_Rel ext root p = Inr relPath"
      and rest: "normalizePathsLoop ext root paths (acc @ [''./'' @ relPath]) = Inr ret"
      by (auto split: sum.splits)
    from Cons.IH [OF rest] obtain qs where "ret = (acc @ [''./'' @ relPath]) @ qs"
      and "list_all2 (\<lambda>p q. if filepath_IsAbs ext p
                       then (\<exists>relPath. filepath_Rel ext root p = Inr relPath \<and> q = ''./'' @ relPath)
                       else q = ''./'' @ p) paths qs"
      by blast
    with True rel show ?thesis
      by (intro exI [of _ "(''./'' @ relPath) # qs"]) simp
  next
    case False
    with Cons.prems have rest: "normalizePathsLoop ext root paths (acc @ [''./'' @ p]) = Inr ret"
      by simp
    from Cons.IH [OF rest] obtain qs where "ret = (acc @ [''./'' @ p]) @ qs"
      and "list_all2 (\<lambda>p q. if filepath_IsAbs ext p
                       then (\<exists>relPath. filepath_Rel ext root p = Inr relPath \<and> q = ''./'' @ relPath)
                       else q = ''./'' @ p) paths qs"
      by blast
    with False show ?thesis
      by (intro exI [of _ "(''./'' @ p) # qs"]) simp
  qed
qed

lemma normalizePathsLoop_Inl:
  "(\<exists>err. normalizePathsLoop ext root paths acc = Inl err) \<longleftrightarrow>
   (\<exists>p \<in> set paths. filepath_IsAbs ext p \<and> (\<exists>err. filepath_Rel ext root p = Inl err))"
  by (induction paths arbitrary: acc) (auto split: sum.splits)

text \<open>
  Claim C6. \<^verbatim>\<open>normalizePaths\<close> always returns: an error or a list. It returns an error
  exactly when the working directory cannot be determined or some absolute input path
  cannot be made relative to it. On success the output has one path for each input path,
  in input order: for an absolute input the path relative to the working directory, for
  any other input the input itself, each with \<^verbatim>\<open>./\<close> in front.
\<close>

theorem normalizePaths_result:
  "((\<exists>err. normalizePaths ext paths = Inl err) \<longleftrightarrow>
      (\<exists>err. os_Getwd ext = Inl err) \<or>
      (\<exists>root. os_Getwd ext = Inr root \<and>
         (\<exists>p \<in> set paths. filepath_IsAbs ext p \<and> (\<exists>err. filepath_Rel ext root p = Inl err)))) \<and>
   (\<forall>ret. normalizePaths ext paths = Inr ret \<longrightarrow>
      (\<exists>root. os_Getwd ext = Inr root \<and>
         list_all2 (\<lambda>p q. if filepath_IsAbs ext p
                       then (\<exists>relPath. filepath_Rel ext root p = Inr relPath \<and> q = ''./'' @ relPath)
                       else q = ''./'' @ p) paths ret) \<and>
      (\<forall>q \<in> set ret. prefix ''./'' q))"
  (is "?fails \<and> ?succeeds")
proof (cases "os_Getwd ext")
  case (Inl err)
  then show ?thesis by (simp add: normalizePaths_def)
next
  case (Inr root)
  let ?R = "\<lambda>p q. if filepath_IsAbs ext p
                       then (\<exists>relPath. filepath_Rel ext root p = Inr relPath \<and> q = ''./'' @ relPath)
                       else q = ''./'' @ p"
  have np: "normalizePaths ext paths = normalizePathsLoop ext root paths []"
    using Inr by (simp add: normalizePaths_def)
  have ok: "list_all2 ?R paths ret" if "normalizePaths ext paths = Inr ret" for ret
    using normalizePathsLoop_Inr [of ext root paths "[]" ret] that np by simp
  have pre: "prefix ''./'' q" if "normalizePaths ext paths = Inr ret" and "q \<in> set ret" for ret q
  proof -
    from that(2) obtain i where i: "i < length ret" and q: "ret ! i = q"
      by (auto simp: in_set_conv_nth)
    from ok [OF that(1)] i have "?R (paths ! i) (ret ! i)"
      by (rule list_all2_nthD2)
    with q show ?thesis
      by (cases "filepath_IsAbs ext (paths ! i)") auto
  qed
  have ?fails
    unfolding np using Inr normalizePathsLoop_Inl [of ext root paths "[]"] by simp
  moreover have ?succeeds
    using Inr ok pre by blast
  ultimately show ?thesis ..
qed



theorem normalizePaths_result_witness:
  "normalizePaths example_ext [''/home/dev/proj/svc'', ''lib''] = Inr [''./svc'', ''./lib''] \<and>
   os_Getwd example_ext = Inr ''/home/dev/proj'' \<and>
   list_all2 (\<lambda>p q. if filepath_IsAbs example_ext p
                 then (\<exists>relPath. filepath_Rel example_ext ''/home/dev/proj'' p = Inr relPath
                         \<and> q = ''./'' @ relPath)
                 else q = ''./'' @ p)
     [''/home/dev/proj/svc'', ''lib''] [''./svc'', ''./lib''] \<and>
   prefix ''./'' ''./svc'' \<and> prefix ''./'' ''./lib'' \<and>
   (\<exists>err. normalizePaths example_ext [''lib'', ''/tmp/x''] = Inl err) \<and>
   (\<exists>p \<in> set [''lib'', ''/tmp/x'']. filepath_IsAbs example_ext p \<and>
      (\<exists>err. filepath_Rel example_ext ''/home/dev/proj'' p = Inl err))"
proof -
  let ?ok = "[''/home/dev/proj/svc'', ''lib'']" and ?bad = "[''lib'', ''/tmp/x'']"
  have r: "normalizePaths example_ext ?ok = Inr [''./svc'', ''./lib'']"
    by (simp add: normalizePaths_def example_ext_def)
  have g: "os_Getwd example_ext = Inr ''/home/dev/proj''"
    by (simp add: example_ext_def)
  have f: "\<exists>p \<in> set ?bad. filepath_IsAbs example_ext p \<and>
      (\<exists>err. filepath_Rel example_ext ''/home/dev/proj'' p = Inl err)"
    by (simp add: example_ext_def)
  have "\<forall>ret. normalizePaths example_ext ?ok = Inr ret \<longrightarrow>
      (\<exists>root. os_Getwd example_ext = Inr root \<and>
         list_all2 (\<lambda>p q. if filepath_IsAbs example_ext p
                       then (\<exists>relPath. filepath_Rel example_ext root p = Inr relPath
                               \<and> q = ''./'' @ relPath)
                       else q = ''./'' @ p) ?ok ret) \<and>
      (\<forall>q \<in> set ret. prefix ''./'' q)"
    using normalizePaths_result [of example_ext ?ok] by (rule conjunct2)
  from this [rule_format, OF r] obtain root where "os_Getwd example_ext = Inr root"
    and l: "list_all2 (\<lambda>p q. if filepath_IsAbs example_ext p
                       then (\<exists>relPath. filepath_Rel example_ext root p = Inr relPath
                               \<and> q = ''./'' @ relPath)
                       else q = ''./'' @ p) ?ok [''./svc'', ''./lib'']"
    and p: "\<forall>q \<in> set [''./svc'', ''./lib'']. prefix ''./'' q"
    by blast
  with g have root: "root = ''/home/dev/proj''" by (simp only: sum.inject)
  have "(\<exists>err. normalizePaths example_ext ?bad = Inl err) \<longleftrightarrow>
      (\<exists>err. os_Getwd example_ext = Inl err) \<or>
      (\<exists>root. os_Getwd example_ext = Inr root \<and>
         (\<exists>p \<in> set ?bad. filepath_IsAbs example_ext p
            \<and> (\<exists>err. filepath_Rel example_ext root p = Inl err)))"
    using normalizePaths_result [of example_ext ?bad] by (rule conjunct1)
  with g f have e: "\<exists>err. normalizePaths example_ext ?bad = Inl err"
    by blast
  from p have p1: "prefix ''./'' ''./svc''" and p2: "prefix ''./'' ''./lib''"
    by simp_all
  from r g l [unfolded root] p1 p2 e f show ?thesis
    by (intro conjI)
qed

section \<open>Properties of the vet analyzer\<close>

lemma govetPackages_first_error:
  "\<forall>q \<in> set pre. \<exists>issues. govetPackage ext lintCtx q = Inr issues \<Longrightarrow>
   govetPackage ext lintCtx pkg = Inl err \<Longrightarrow>
   govetPackages ext lintCtx (pre @ pkg # post) acc = Inl err"
proof (induction pre arbitrary: acc)
  case Nil
  then show ?case by (simp add: govetPackage_def)
next
  case (Cons q pre)
  from Cons.prems(1) obtain issues where "govetPackage ext lintCtx q = Inr issues"
    by auto
  moreover have "govetPackages ext lintCtx (pre @ pkg # post) (acc @ issues) = Inl err"
    using Cons.prems by (intro Cons.IH) simp_all
  ultimately show ?case by (simp add: govetPackage_def)
qed

lemma govetPackages_no_issues:
  "\<forall>pkg \<in> set pkgs. govetPackage ext lintCtx pkg = Inr [] \<Longrightarrow>
   govetPackages ext lintCtx pkgs acc = Inr acc"
  by (induction pkgs arbitrary: acc) (simp_all add: govetPackage_def)

text \<open>
  Claim C10. \<^verbatim>\<open>Govet.Run\<close> stops at the first package whose vet analysis returns an
  error: whatever issues the packages before it produced, the result is nil findings
  together with that error. So if the analysis of some package fails, the result is nil
  findings and the error of a failing package. When the analysis of every package
  succeeds with no issue, the result is nil findings and a nil error.
\<close>

theorem Govet_Run_fail_fast:
  "(\<forall>pre pkg post err.
      Packages (PkgProgram lintCtx) = pre @ pkg # post \<and>
      (\<forall>q \<in> set pre. \<exists>issues. govetPackage ext lintCtx q = Inr issues) \<and>
      govetPackage ext lintCtx pkg = Inl err \<longrightarrow>
      Govet_Run ext lintCtx = (None, Some err)) \<and>
   ((\<exists>pkg \<in> set (Packages (PkgProgram lintCtx)). \<exists>err. govetPackage ext lintCtx pkg = Inl err) \<longrightarrow>
      (\<exists>pkg \<in> set (Packages (PkgProgram lintCtx)). \<exists>err.
         govetPackage ext lintCtx pkg = Inl err \<and> Govet_Run ext lintCtx = (None, Some err))) \<and>
   ((\<forall>pkg \<in> set (Packages (PkgProgram lintCtx)). govetPackage ext lintCtx pkg = Inr []) \<longrightarrow>
      Govet_Run ext lintCtx = (None, None))"
proof (intro conjI allI impI)
  fix pre pkg post err
  assume "Packages (PkgProgram lintCtx) = pre @ pkg # post \<and>
      (\<forall>q \<in> set pre. \<exists>issues. govetPackage ext lintCtx q = Inr issues) \<and>
      govetPackage ext lintCtx pkg = Inl err"
  then show "Govet_Run ext lintCtx = (None, Some err)"
    by (simp add: Govet_Run_def govetPackages_first_error)
next
  let ?fails = "\<lambda>pkg. \<exists>err. govetPackage ext lintCtx pkg = Inl err"
  assume "\<exists>pkg \<in> set (Packages (PkgProgram lintCtx)). ?fails pkg"
  from split_list_first_prop [OF this]
  obtain pre pkg post where split: "Packages (PkgProgram lintCtx) = pre @ pkg # post"
    and fails: "?fails pkg" and before: "\<forall>q \<in> set pre. \<not> ?fails q"
    by blast
  from fails obtain err where err: "govetPackage ext lintCtx pkg = Inl err" ..
  have "\<forall>q \<in> set pre. \<exists>issues. govetPackage ext lintCtx q = Inr issues"
  proof
    fix q assume "q \<in> set pre"
    with before have "\<not> ?fails q" ..
    then show "\<exists>issues. govetPackage ext lintCtx q = Inr issues"
      by (cases "govetPackage ext lintCtx q") auto
  qed
  then have "Govet_Run ext lintCtx = (None, Some err)"
    using err split by (simp add: Govet_Run_def govetPackages_first_error)
  moreover have "pkg \<in> set (Packages (PkgProgram lintCtx))"
    using split by simp
  ultimately show "\<exists>pkg \<in> set (Packages (PkgProgram lintCtx)). \<exists>err.
         govetPackage ext lintCtx pkg = Inl err \<and> Govet_Run ext lintCtx = (None, Some err)"
    using err by blast
next
  assume "\<forall>pkg \<in> set (Packages (PkgProgram lintCtx)). govetPackage ext lintCtx pkg = Inr []"
  then show "Govet_Run ext lintCtx = (None, None)"
    by (simp add: Govet_Run_def govetPackages_no_issues)
qed

lemma example_govet:
  "Packages (PkgProgram example_lintCtx) =
     [\<lparr>Package_Files = (\<lambda>tests. [''svc/a.go''])\<rparr>] @ \<lparr>Package_Files = (\<lambda>tests. [''lib/b.go''])\<rparr> # []"
  "govetPackage example_ext example_lintCtx \<lparr>Package_Files = (\<lambda>tests. [''svc/a.go''])\<rparr>
     = Inr [\<lparr>Pos = \<lparr>Filename = ''svc/a.go'', Line = 3, Column = 1\<rparr>,
             Message = ''unreachable code''\<rparr>]"
  "govetPackage example_ext example_lintCtx \<lparr>Package_Files = (\<lambda>tests. [''lib/b.go''])\<rparr>
     = Inl (External ''vet: can not parse'')"
  "\<forall>pkg \<in> set (Packages (PkgProgram example_lintCtx)).
     govetPackage example_ext_quiet example_lintCtx pkg = Inr []"
  by (simp_all add: example_lintCtx_def example_pkgProg_def govetPackage_def example_ext_def
      example_ext_quiet_def)

theorem Govet_Run_fail_fast_witness:
  "Packages (PkgProgram example_lintCtx) =
     [\<lparr>Package_Files = (\<lambda>tests. [''svc/a.go''])\<rparr>] @ \<lparr>Package_Files = (\<lambda>tests. [''lib/b.go''])\<rparr> # [] \<and>
   (\<exists>issues. issues \<noteq> [] \<and>
      govetPackage example_ext example_lintCtx \<lparr>Package_Files = (\<lambda>tests. [''svc/a.go''])\<rparr>
        = Inr issues) \<and>
   govetPackage example_ext example_lintCtx \<lparr>Package_Files = (\<lambda>tests. [''lib/b.go''])\<rparr>
     = Inl (External ''vet: can not parse'') \<and>
   Govet_Run example_ext example_lintCtx = (None, Some (External ''vet: can not parse'')) \<and>
   list_all (\<lambda>pkg. govetPackage example_ext_quiet example_lintCtx pkg = Inr [])
     (Packages (PkgProgram example_lintCtx)) \<and>
   Govet_Run example_ext_quiet example_lintCtx = (None, None)"
proof -
  have pre: "\<forall>q \<in> set [\<lparr>Package_Files = (\<lambda>tests. [''svc/a.go''])\<rparr>].
      \<exists>issues. govetPackage example_ext example_lintCtx q = Inr issues"
    using example_govet(2) by simp
  have "Govet_Run example_ext example_lintCtx = (None, Some (External ''vet: can not parse''))"
    using Govet_Run_fail_fast [of example_lintCtx example_ext, THEN conjunct1, rule_format,
        OF conjI [OF example_govet(1) conjI [OF pre example_govet(3)]]] .
  moreover have "Govet_Run example_ext_quiet example_lintCtx = (None, None)"
    using Govet_Run_fail_fast [of example_lintCtx example_ext_quiet, THEN conjunct2,
        THEN conjunct2, THEN mp, OF example_govet(4)] .
  moreover have "\<exists>issues. issues \<noteq> [] \<and>
      govetPackage example_ext example_lintCtx \<lparr>Package_Files = (\<lambda>tests. [''svc/a.go''])\<rparr>
        = Inr issues"
    using example_govet(2) by blast
  moreover have "list_all (\<lambda>pkg. govetPackage example_ext_quiet example_lintCtx pkg = Inr [])
     (Packages (PkgProgram example_lintCtx))"
    using example_govet(4) by (simp only: list_all_iff)
  ultimately show ?thesis
    using example_govet(1,3) by (intro conjI)
qed

section \<open>Properties of the default exclusion rules\<close>

lemma GetDefaultExcludePatternsStrings_eq:
  "GetDefaultExcludePatternsStrings = map Pattern DefaultExcludePatterns"
proof -
  have "appendPatterns ps ret = ret @ map Pattern ps" for ps ret
    by (induction ps arbitrary: ret) simp_all
  then show ?thesis by (simp add: GetDefaultExcludePatternsStrings_def)
qed

text \<open>
  Claim C8. Every pattern of the built-in list \<^verbatim>\<open>DefaultExcludePatterns\<close> compiles as a
  regular expression, and so does every string that
  \<^verbatim>\<open>GetDefaultExcludePatternsStrings\<close> hands to the exclusion stage: compiling the default
  rules raises no error.
\<close>

theorem DefaultExcludePatterns_compile:
  "(\<forall>p \<in> set DefaultExcludePatterns. regexp_Compile (Pattern p) = None) \<and>
   (\<forall>pattern \<in> set GetDefaultExcludePatternsStrings. regexp_Compile pattern = None)"
proof -
  have "list_all (\<lambda>p. regexp_Compile (Pattern p) = None) DefaultExcludePatterns"
    by (simp add: DefaultExcludePatterns_def regexp_Compile_def backslash_def isalnum_def)
  then show ?thesis
    by (simp add: GetDefaultExcludePatternsStrings_eq list_all_iff)
qed

theorem DefaultExcludePatterns_compile_witness:
  "\<lparr>Pattern = ''Subprocess launch(ed with variable|ing should be audited)'',
     Linter = ''gas'',
     Why = ''Too many false-positives for parametrized shell calls''\<rparr>
     \<in> set DefaultExcludePatterns \<and>
   regexp_Compile ''Subprocess launch(ed with variable|ing should be audited)'' = None"
proof -
  let ?p = "\<lparr>Pattern = ''Subprocess launch(ed with variable|ing should be audited)'',
     Linter = ''gas'',
     Why = ''Too many false-positives for parametrized shell calls''\<rparr>"
  have m: "?p \<in> set DefaultExcludePatterns"
    by (simp add: DefaultExcludePatterns_def)
  from DefaultExcludePatterns_compile have
    "\<forall>p \<in> set DefaultExcludePatterns. regexp_Compile (Pattern p) = None" ..
  from bspec [OF this m] m show ?thesis by simp
qed

text \<open>The compiler does reject malformed patterns.\<close>

lemma regexp_Compile_rejects:
  "regexp_Compile ''(a'' = Some MissingParen"
  "regexp_Compile ''a)'' = Some UnexpectedParen"
  "regexp_Compile ''*a'' = Some MissingRepeatArgument"
  "regexp_Compile ''a**'' = Some InvalidNestedRepetition"
  "regexp_Compile (''a'' @ backslash) = Some TrailingBackslash"
  by (simp_all add: regexp_Compile_def backslash_def)

section \<open>Properties of loading the context\<close>

lemma isFullImportNeeded_iff:
  "isFullImportNeeded linters \<longleftrightarrow> (\<exists>l \<in> set linters. NeedsProgramLoading l)"
  by (induction linters) auto

lemma isSSAReprNeeded_iff:
  "isSSAReprNeeded linters \<longleftrightarrow> (\<exists>l \<in> set linters. NeedsSSARepresentation l)"
  by (induction linters) auto

lemma separateNotCompilingPackages_Some:
  "Program c = Some prog \<Longrightarrow>
   separateNotCompilingPackages c =
     Returned (c\<lparr>Program := Some (fst (separateProgram prog (NotCompilingPackages c))),
                 NotCompilingPackages := snd (separateProgram prog (NotCompilingPackages c))\<rparr>)"
  by (simp add: separateNotCompilingPackages_def split: prod.splits)

lemma discoverGoRoot_world:
  assumes "discoverGoRoot ext w = (r, w')"
  shows "environ w' = environ w" "build_Default_GOROOT w' = build_Default_GOROOT w"
    "effects w' = effects w @ (if environ w ''GOROOT'' \<noteq> '''' then [] else [Exec_go_env_GOROOT])"
  using assms
  by (auto simp: discoverGoRoot_def Let_def record_effect_def split: if_splits sum.splits)

lemma loadWholeAppIfNeeded_cases [consumes 1, case_names skipped failed loaded]:
  assumes "loadWholeAppIfNeeded ext linters cfg pkgProg w = (r, w')"
  obtains
    (skipped) "\<not> isFullImportNeeded linters" "r = Inr (None, None)" "w' = w"
  | (failed) err es where "isFullImportNeeded linters" "r = Inl err"
      "environ w' = environ w" "build_Default_GOROOT w' = build_Default_GOROOT w"
      "effects w' = effects w @ es"
      "\<forall>e \<in> set es. e = Load \<or> (\<exists>a t. e = FromArgs a t)"
  | (loaded) prog lc n where "isFullImportNeeded linters" "r = Inr (Some prog, Some lc)"
      "Config_Load ext lc = Inr prog"
      "environ w' = environ w" "build_Default_GOROOT w' = build_Default_GOROOT w"
      "effects w' = effects w @ [FromArgs n (AnalyzeTests cfg), Load]"
  using assms
  by (auto simp: loadWholeAppIfNeeded_def Let_def record_effect_def
      split: if_splits sum.splits prod.splits)

lemma LoadContext_cases [consumes 1, case_names discover_failed resolver_failed
    resolve_failed load_failed files_cache_failed program_cache_failed
    without_program with_program]:
  fixes ext linters cfg w0
  defines "D \<equiv> (if environ w0 ''GOROOT'' \<noteq> '''' then [] else [Exec_go_env_GOROOT])"
    and "tags \<equiv> BuildTags (Run cfg)"
    and "skipDirs \<equiv> packages_StdExcludeDirRegexps ext @ SkipDirs (Run cfg)"
    and "args \<equiv> (if Args (Run cfg) = [] then [''./...''] else Args (Run cfg))"
    and "tests \<equiv> AnalyzeTests (Run cfg)"
  defines "S \<equiv> \<lambda>g. D @ [Setenv ''GOROOT'' g, Assign_build_Default_GOROOT g,
                         NewResolver tags skipDirs]"
  assumes run: "LoadContext ext linters cfg w0 = (r, w')"
  obtains
    (discover_failed) err where
      "fst (discoverGoRoot ext w0) = Inl err"
      "r = Returned (Inl (CantDiscoverGOROOT err))"
      "environ w' = environ w0" "build_Default_GOROOT w' = build_Default_GOROOT w0"
      "effects w' = effects w0 @ D"
  | (resolver_failed) g err where
      "fst (discoverGoRoot ext w0) = Inr g"
      "environ w' = (if CHR 0x00 \<in> set g then environ w0 else (environ w0)(''GOROOT'' := g))"
      "build_Default_GOROOT w' = g"
      "r = Returned (Inl err)"
      "effects w' = effects w0 @ S g"
  | (resolve_failed) g err where
      "fst (discoverGoRoot ext w0) = Inr g"
      "environ w' = (if CHR 0x00 \<in> set g then environ w0 else (environ w0)(''GOROOT'' := g))"
      "build_Default_GOROOT w' = g"
      "r = Returned (Inl err)"
      "effects w' = effects w0 @ S g @ [Resolve args]"
  | (load_failed) g err es where
      "fst (discoverGoRoot ext w0) = Inr g"
      "environ w' = (if CHR 0x00 \<in> set g then environ w0 else (environ w0)(''GOROOT'' := g))"
      "build_Default_GOROOT w' = g"
      "isFullImportNeeded linters"
      "r = Returned (Inl err)"
      "effects w' = effects w0 @ S g @ [Resolve args] @ es"
      "\<forall>e \<in> set es. e = Load \<or> (\<exists>a t. e = FromArgs a t)"
  | (files_cache_failed) g err and pkgProg :: packages_Program where
      "fst (discoverGoRoot ext w0) = Inr g"
      "environ w' = (if CHR 0x00 \<in> set g then environ w0 else (environ w0)(''GOROOT'' := g))"
      "build_Default_GOROOT w' = g"
      "\<not> isFullImportNeeded linters"
      "r = Returned (Inl err)"
      "effects w' = effects w0 @ S g @ [Resolve args, LoadFromFiles (Files pkgProg tests)]"
  | (program_cache_failed) g err n where
      "fst (discoverGoRoot ext w0) = Inr g"
      "environ w' = (if CHR 0x00 \<in> set g then environ w0 else (environ w0)(''GOROOT'' := g))"
      "build_Default_GOROOT w' = g"
      "isFullImportNeeded linters"
      "r = Returned (Inl err)"
      "effects w' = effects w0 @ S g @ [Resolve args, FromArgs n tests, Load]
         @ (if isSSAReprNeeded linters then [CreateProgram, BuildSSA] else [])
         @ [LoadFromProgram]"
  | (without_program) g pkgProg cache where
      "fst (discoverGoRoot ext w0) = Inr g"
      "environ w' = (if CHR 0x00 \<in> set g then environ w0 else (environ w0)(''GOROOT'' := g))"
      "build_Default_GOROOT w' = g"
      "\<not> isFullImportNeeded linters"
      "astcache_LoadFromFiles ext (Files pkgProg tests) = Inr cache"
      "r = Returned (Inr \<lparr>PkgProgram = pkgProg, Cfg = cfg, Program = None, SSAProgram = None,
                           LoaderConfig = None, ASTCache = cache,
                           NotCompilingPackages = []\<rparr>)"
      "effects w' = effects w0 @ S g @ [Resolve args, LoadFromFiles (Files pkgProg tests)]"
  | (with_program) g pkgProg lprog lc n cache where
      "fst (discoverGoRoot ext w0) = Inr g"
      "environ w' = (if CHR 0x00 \<in> set g then environ w0 else (environ w0)(''GOROOT'' := g))"
      "build_Default_GOROOT w' = g"
      "isFullImportNeeded linters"
      "Config_Load ext lc = Inr lprog"
      "astcache_LoadFromProgram ext lprog = Inr cache"
      "r = Returned (Inr \<lparr>PkgProgram = pkgProg, Cfg = cfg,
                           Program = Some (fst (separateProgram lprog [])),
                           SSAProgram = (if isSSAReprNeeded linters
                                         then Some \<lparr>ssa_prog = lprog, ssa_mode = GlobalDebug,
                                                     ssa_built = True\<rparr>
                                         else None),
                           LoaderConfig = Some lc, ASTCache = cache,
                           NotCompilingPackages = snd (separateProgram lprog [])\<rparr>)"
      "effects w' = effects w0 @ S g @ [Resolve args, FromArgs n tests, Load]
         @ (if isSSAReprNeeded linters then [CreateProgram, BuildSSA] else [])
         @ [LoadFromProgram]"
proof -
  obtain r1 w1 where d: "discoverGoRoot ext w0 = (r1, w1)"
    by (cases "discoverGoRoot ext w0")
  note w1 = discoverGoRoot_world [OF d, folded D_def]
  show thesis
  proof (cases r1)
    case (Inl err)
    with d run have "r = Returned (Inl (CantDiscoverGOROOT err))" and "w' = w1"
      by (simp_all add: LoadContext_def)
    with d Inl w1 show thesis
      by (intro discover_failed [of err]) simp_all
  next
    case (Inr g)
    define w4 where "w4 = record_effect (NewResolver tags skipDirs)
        (record_effect (Assign_build_Default_GOROOT g)
          ((snd (os_Setenv ''GOROOT'' g w1))\<lparr>build_Default_GOROOT := g\<rparr>))"
    have w4: "environ w4 = (if CHR 0x00 \<in> set g then environ w0 else (environ w0)(''GOROOT'' := g))"
      "build_Default_GOROOT w4 = g"
      "effects w4 = effects w0 @ S g"
      by (simp_all add: w4_def record_effect_def os_Setenv_def Let_def w1 S_def)
    have g: "fst (discoverGoRoot ext w0) = Inr g"
      using d Inr by simp
    show thesis
    proof (cases "packages_NewResolver ext tags skipDirs")
      case (Inl err)
      with d Inr run have "r = Returned (Inl err)" and "w' = w4"
        by (simp_all add: LoadContext_def Let_def w4_def tags_def skipDirs_def)
      with g w4 show thesis
        by (intro resolver_failed [of g err]) simp_all
    next
      case rs: (Inr rs)
      define w5 where "w5 = record_effect (Resolve args) w4"
      have w5: "environ w5 = (if CHR 0x00 \<in> set g then environ w0 else (environ w0)(''GOROOT'' := g))"
        "build_Default_GOROOT w5 = g"
        "effects w5 = effects w0 @ S g @ [Resolve args]"
        by (simp_all add: w5_def record_effect_def w4)
      show thesis
      proof (cases "Resolver_Resolve ext rs args")
        case (Inl err)
        with d Inr rs run have "r = Returned (Inl err)" and "w' = w5"
          by (simp_all add: LoadContext_def Let_def w4_def w5_def tags_def skipDirs_def
              args_def)
        with g w5 show thesis
          by (intro resolve_failed [of g err]) simp_all
      next
        case pp: (Inr pkgProg)
        obtain r6 w6 where lw: "loadWholeAppIfNeeded ext linters (Run cfg) pkgProg w5 = (r6, w6)"
          by (cases "loadWholeAppIfNeeded ext linters (Run cfg) pkgProg w5")
        note unfold = d Inr rs pp lw
        note defs = LoadContext_def w4_def w5_def tags_def skipDirs_def args_def tests_def
        from lw show thesis
        proof (cases rule: loadWholeAppIfNeeded_cases)
          case skipped
          show thesis
          proof (cases "astcache_LoadFromFiles ext (Files pkgProg tests)")
            case (Inl err)
            with unfold skipped run have "r = Returned (Inl err)"
              and "w' = record_effect (LoadFromFiles (Files pkgProg tests)) w5"
              by (simp_all add: defs Let_def)
            with g w5 skipped show thesis
              by (intro files_cache_failed [of g err pkgProg])
                (simp_all add: record_effect_def)
          next
            case (Inr cache)
            with unfold skipped run have
              "r = Returned (Inr \<lparr>PkgProgram = pkgProg, Cfg = cfg, Program = None,
                 SSAProgram = None, LoaderConfig = None, ASTCache = cache,
                 NotCompilingPackages = []\<rparr>)"
              and "w' = record_effect (LoadFromFiles (Files pkgProg tests)) w5"
              by (simp_all add: defs Let_def)
            with g w5 skipped Inr show thesis
              by (intro without_program [of g pkgProg cache])
                (simp_all add: record_effect_def)
          qed
        next
          case (failed err es)
          from unfold failed(2) run have "r = Returned (Inl err)" and "w' = w6"
            by (simp_all add: defs Let_def)
          with g w5 failed show thesis
            by (intro load_failed [of g err es]) simp_all
        next
          case (loaded lprog lc n)
          define B where "B = (if isSSAReprNeeded linters then [CreateProgram, BuildSSA] else [])"
          define w8 where "w8 = w6\<lparr>effects := effects w6 @ B @ [LoadFromProgram]\<rparr>"
          have w8: "environ w8 = (if CHR 0x00 \<in> set g then environ w0 else (environ w0)(''GOROOT'' := g))"
            "build_Default_GOROOT w8 = g"
            "effects w8 = effects w0 @ S g @ [Resolve args, FromArgs n tests, Load] @ B
               @ [LoadFromProgram]"
            using loaded w5 by (simp_all add: w8_def tests_def)
          show thesis
          proof (cases "astcache_LoadFromProgram ext lprog")
            case (Inl err)
            from this unfold loaded(2) run have "r = Returned (Inl err)" and "w' = w8"
              by (simp_all add: defs Let_def buildSSAProgram_def record_effect_def w8_def B_def
                  split: if_splits)
            with g w8 loaded show thesis
              by (intro program_cache_failed [of g err n]) (simp_all add: B_def)
          next
            case (Inr cache)
            from this unfold loaded(2) run have
              "r = Returned (Inr \<lparr>PkgProgram = pkgProg, Cfg = cfg,
                           Program = Some (fst (separateProgram lprog [])),
                           SSAProgram = (if isSSAReprNeeded linters
                                         then Some \<lparr>ssa_prog = lprog, ssa_mode = GlobalDebug,
                                                     ssa_built = True\<rparr>
                                         else None),
                           LoaderConfig = Some lc, ASTCache = cache,
                           NotCompilingPackages = snd (separateProgram lprog [])\<rparr>)"
              and "w' = w8"
              by (simp_all add: defs Let_def buildSSAProgram_def ssautil_CreateProgram_def
                  record_effect_def w8_def B_def separateNotCompilingPackages_Some
                  split: if_splits)
            with g w8 loaded Inr show thesis
              by (intro with_program [where g = g and lprog = lprog and lc = lc and cache = cache
                    and pkgProg = pkgProg and n = n]) (simp_all add: B_def)
          qed
        qed
      qed
    qed
  qed
qed

text \<open>
  Claim C3. When no analyzer of the enabled set declares that it needs program loading,
  \<^verbatim>\<open>loadWholeAppIfNeeded\<close> returns a nil program, a nil loader configuration and a nil
  error and leaves the world as it was: the loader is not called. A whole run of
  \<^verbatim>\<open>LoadContext\<close> then makes no call to \<^verbatim>\<open>FromArgs\<close> or \<^verbatim>\<open>Load\<close>, and a context that it
  returns has no program, no loader configuration, no SSA program and an empty side list.
\<close>

theorem loader_not_invoked:
  assumes "\<forall>l \<in> set linters. \<not> NeedsProgramLoading l"
  shows "loadWholeAppIfNeeded ext linters cfgRun pkgProg w = (Inr (None, None), w) \<and>
    (\<exists>es. effects (snd (LoadContext ext linters cfg w0)) = effects w0 @ es \<and>
       Load \<notin> set es \<and> (\<forall>a t. FromArgs a t \<notin> set es)) \<and>
    (\<forall>ctx. fst (LoadContext ext linters cfg w0) = Returned (Inr ctx) \<longrightarrow>
       Program ctx = None \<and> LoaderConfig ctx = None \<and> SSAProgram ctx = None \<and>
       NotCompilingPackages ctx = [])"
proof -
  from assms have no: "\<not> isFullImportNeeded linters"
    by (simp add: isFullImportNeeded_iff)
  then have "loadWholeAppIfNeeded ext linters cfgRun pkgProg w = (Inr (None, None), w)"
    by (simp add: loadWholeAppIfNeeded_def)
  moreover
  obtain r w' where run: "LoadContext ext linters cfg w0 = (r, w')"
    by (cases "LoadContext ext linters cfg w0")
  from run have "(\<exists>es. effects w' = effects w0 @ es \<and>
       Load \<notin> set es \<and> (\<forall>a t. FromArgs a t \<notin> set es)) \<and>
    (\<forall>ctx. r = Returned (Inr ctx) \<longrightarrow>
       Program ctx = None \<and> LoaderConfig ctx = None \<and> SSAProgram ctx = None \<and>
       NotCompilingPackages ctx = [])"
  proof (cases rule: LoadContext_cases)
    case (discover_failed err)
    then show ?thesis by simp
  next
    case (resolver_failed g err)
    then show ?thesis by simp
  next
    case (resolve_failed g err)
    then show ?thesis by simp
  next
    case (load_failed g err es)
    with no show ?thesis by simp
  next
    case (files_cache_failed g err pkgProg)
    then show ?thesis by simp
  next
    case (program_cache_failed g err n)
    with no show ?thesis by simp
  next
    case (without_program g pkgProg cache)
    then show ?thesis by simp
  next
    case (with_program g pkgProg lprog lc n cache)
    with no show ?thesis by simp
  qed
  ultimately show ?thesis by (simp add: run)
qed

text \<open>
  Claim C4. In every run of \<^verbatim>\<open>LoadContext\<close> the SSA program is created if and only if it
  is built, and that happens exactly in the runs that have a loaded program and an analyzer
  that declares the need for the SSA representation. The runs with a loaded program are
  those that derive the parse cache from it (the call that follows, whatever the
  analyzers), and they all called the loader. In a context that is returned the SSA
  program is present exactly when the program is present and some analyzer declares the
  need, which is exactly when it was created in that run; it is then built, in global
  debug mode, from the program that the loader returned.
\<close>

theorem SSA_built_when_needed:
  "\<exists>es. effects (snd (LoadContext ext linters cfg w0)) = effects w0 @ es \<and>
     (CreateProgram \<in> set es \<longleftrightarrow> BuildSSA \<in> set es) \<and>
     (CreateProgram \<in> set es \<longleftrightarrow>
        LoadFromProgram \<in> set es \<and> (\<exists>l \<in> set linters. NeedsSSARepresentation l)) \<and>
     (LoadFromProgram \<in> set es \<longrightarrow> Load \<in> set es) \<and>
     (\<forall>ctx. fst (LoadContext ext linters cfg w0) = Returned (Inr ctx) \<longrightarrow>
        (SSAProgram ctx \<noteq> None \<longleftrightarrow>
           Program ctx \<noteq> None \<and> (\<exists>l \<in> set linters. NeedsSSARepresentation l)) \<and>
        (SSAProgram ctx \<noteq> None \<longleftrightarrow> CreateProgram \<in> set es) \<and>
        (Program ctx \<noteq> None \<longleftrightarrow> LoadFromProgram \<in> set es) \<and>
        (\<forall>s. SSAProgram ctx = Some s \<longrightarrow>
           ssa_built s \<and> ssa_mode s = GlobalDebug \<and>
           (\<exists>lc. Config_Load ext lc = Inr (ssa_prog s))))"
proof -
  obtain r w' where run: "LoadContext ext linters cfg w0 = (r, w')"
    by (cases "LoadContext ext linters cfg w0")
  from run have "\<exists>es. effects w' = effects w0 @ es \<and>
     (CreateProgram \<in> set es \<longleftrightarrow> BuildSSA \<in> set es) \<and>
     (CreateProgram \<in> set es \<longleftrightarrow> LoadFromProgram \<in> set es \<and> isSSAReprNeeded linters) \<and>
     (LoadFromProgram \<in> set es \<longrightarrow> Load \<in> set es) \<and>
     (\<forall>ctx. r = Returned (Inr ctx) \<longrightarrow>
        (SSAProgram ctx \<noteq> None \<longleftrightarrow> Program ctx \<noteq> None \<and> isSSAReprNeeded linters) \<and>
        (SSAProgram ctx \<noteq> None \<longleftrightarrow> CreateProgram \<in> set es) \<and>
        (Program ctx \<noteq> None \<longleftrightarrow> LoadFromProgram \<in> set es) \<and>
        (\<forall>s. SSAProgram ctx = Some s \<longrightarrow>
           ssa_built s \<and> ssa_mode s = GlobalDebug \<and>
           (\<exists>lc. Config_Load ext lc = Inr (ssa_prog s))))"
  proof (cases rule: LoadContext_cases)
    case (discover_failed err)
    then show ?thesis by simp
  next
    case (resolver_failed g err)
    then show ?thesis by simp
  next
    case (resolve_failed g err)
    then show ?thesis by simp
  next
    case (load_failed g err es)
    then show ?thesis by auto
  next
    case (files_cache_failed g err pkgProg)
    then show ?thesis by simp
  next
    case (program_cache_failed g err n)
    then show ?thesis by simp
  next
    case (without_program g pkgProg cache)
    then show ?thesis by simp
  next
    case (with_program g pkgProg lprog lc n cache)
    then show ?thesis by auto
  qed
  then show ?thesis by (simp add: run isSSAReprNeeded_iff)
qed

text \<open>
  Claim C5. A run of \<^verbatim>\<open>LoadContext\<close> never loads the parse cache both ways: when it
  derives the cache from the program the loader was called and no file set was parsed,
  and when it parses a file set the loader was not called. In a context that is returned
  with a program, the cache is what \<^verbatim>\<open>astcache.LoadFromProgram\<close> gave for the program that
  the loader returned; in a context without a program, the cache is what
  \<^verbatim>\<open>astcache.LoadFromFiles\<close> gave for the files of the resolved targets, selected by the
  analyze-tests flag.
\<close>

theorem parse_cache_source:
  "\<exists>es. effects (snd (LoadContext ext linters cfg w0)) = effects w0 @ es \<and>
     (LoadFromProgram \<in> set es \<longrightarrow>
        Load \<in> set es \<and> (\<forall>files. LoadFromFiles files \<notin> set es)) \<and>
     (\<forall>files. LoadFromFiles files \<in> set es \<longrightarrow>
        Load \<notin> set es \<and> LoadFromProgram \<notin> set es) \<and>
     (\<forall>ctx. fst (LoadContext ext linters cfg w0) = Returned (Inr ctx) \<longrightarrow>
        (Program ctx \<noteq> None \<longrightarrow>
           LoadFromProgram \<in> set es \<and>
           (\<exists>lc lprog. Config_Load ext lc = Inr lprog \<and>
              Program ctx = Some (fst (separateProgram lprog [])) \<and>
              astcache_LoadFromProgram ext lprog = Inr (ASTCache ctx))) \<and>
        (Program ctx = None \<longrightarrow>
           LoadFromFiles (Files (PkgProgram ctx) (AnalyzeTests (Run cfg))) \<in> set es \<and>
           astcache_LoadFromFiles ext (Files (PkgProgram ctx) (AnalyzeTests (Run cfg)))
             = Inr (ASTCache ctx)))"
proof -
  obtain r w' where run: "LoadContext ext linters cfg w0 = (r, w')"
    by (cases "LoadContext ext linters cfg w0")
  from run have "\<exists>es. effects w' = effects w0 @ es \<and>
     (LoadFromProgram \<in> set es \<longrightarrow>
        Load \<in> set es \<and> (\<forall>files. LoadFromFiles files \<notin> set es)) \<and>
     (\<forall>files. LoadFromFiles files \<in> set es \<longrightarrow>
        Load \<notin> set es \<and> LoadFromProgram \<notin> set es) \<and>
     (\<forall>ctx. r = Returned (Inr ctx) \<longrightarrow>
        (Program ctx \<noteq> None \<longrightarrow>
           LoadFromProgram \<in> set es \<and>
           (\<exists>lc lprog. Config_Load ext lc = Inr lprog \<and>
              Program ctx = Some (fst (separateProgram lprog [])) \<and>
              astcache_LoadFromProgram ext lprog = Inr (ASTCache ctx))) \<and>
        (Program ctx = None \<longrightarrow>
           LoadFromFiles (Files (PkgProgram ctx) (AnalyzeTests (Run cfg))) \<in> set es \<and>
           astcache_LoadFromFiles ext (Files (PkgProgram ctx) (AnalyzeTests (Run cfg)))
             = Inr (ASTCache ctx)))"
  proof (cases rule: LoadContext_cases)
    case (discover_failed err)
    then show ?thesis by simp
  next
    case (resolver_failed g err)
    then show ?thesis by simp
  next
    case (resolve_failed g err)
    then show ?thesis by simp
  next
    case (load_failed g err es)
    then show ?thesis by auto
  next
    case (files_cache_failed g err pkgProg)
    then show ?thesis by simp
  next
    case (program_cache_failed g err n)
    then show ?thesis by simp
  next
    case (without_program g pkgProg cache)
    then show ?thesis by simp
  next
    case (with_program g pkgProg lprog lc n cache)
    then show ?thesis by auto
  qed
  then show ?thesis by (simp add: run)
qed

lemma example_run_loaded:
  "fst (LoadContext example_ext example_linters example_cfg example_world)
     = Returned (Inr example_ctx_loaded)"
  "effects (snd (LoadContext example_ext example_linters example_cfg example_world)) =
     [Exec_go_env_GOROOT, Setenv ''GOROOT'' ''/usr/local/go'',
      Assign_build_Default_GOROOT ''/usr/local/go'', NewResolver [] [''vendor$''],
      Resolve [''./svc''], FromArgs [''./svc''] True, Load, CreateProgram, BuildSSA,
      LoadFromProgram]"
  by (simp_all add: LoadContext_def discoverGoRoot_def loadWholeAppIfNeeded_def
      normalizePaths_def buildSSAProgram_def ssautil_CreateProgram_def
      separateNotCompilingPackages_def separateProgram_def AList.delete_eq
      record_effect_def os_Setenv_def Let_def
      example_ext_def example_linters_def example_cfg_def example_world_def
      example_pkgProg_def example_prog_def example_ctx_loaded_def)

lemma example_run_light:
  "fst (LoadContext example_ext example_linters_fast example_cfg example_world)
     = Returned (Inr example_ctx_light)"
  "effects (snd (LoadContext example_ext example_linters_fast example_cfg example_world)) =
     [Exec_go_env_GOROOT, Setenv ''GOROOT'' ''/usr/local/go'',
      Assign_build_Default_GOROOT ''/usr/local/go'', NewResolver [] [''vendor$''],
      Resolve [''./svc''], LoadFromFiles [''svc/a.go'', ''svc/a_test.go'']]"
  by (simp_all add: LoadContext_def discoverGoRoot_def loadWholeAppIfNeeded_def
      record_effect_def os_Setenv_def Let_def
      example_ext_def example_linters_fast_def example_cfg_def example_world_def
      example_pkgProg_def example_ctx_light_def)

text \<open>
  Claim C7, as amended. \<^verbatim>\<open>discoverGoRoot\<close> returns the value of the environment variable
  \<^verbatim>\<open>GOROOT\<close> when it is not empty, without asking the toolchain; otherwise it returns the
  trimmed output of \<^verbatim>\<open>go env GOROOT\<close>, or an error when that command fails. When the
  discovery fails, \<^verbatim>\<open>LoadContext\<close> returns an error and changes neither the environment nor
  the default build context. When it succeeds, at the end of the run (whatever happens
  later in it) \<^verbatim>\<open>build.Default.GOROOT\<close> holds the discovered value, and so does the
  environment variable, every other variable unchanged, provided the value has no NUL
  byte; \<^verbatim>\<open>os.Setenv\<close> and the assignment come right after the discovery and before the
  target resolver is created.
\<close>

theorem GOROOT_established:
  "(environ w0 ''GOROOT'' \<noteq> '''' \<longrightarrow>
      discoverGoRoot ext w0 = (Inr (environ w0 ''GOROOT''), w0)) \<and>
   (environ w0 ''GOROOT'' = '''' \<longrightarrow>
      fst (discoverGoRoot ext w0) =
        (case exec_go_env_GOROOT ext of
           Inl err \<Rightarrow> Inl (CantExecuteGoEnv err)
         | Inr output \<Rightarrow> Inr (strings_TrimSpace ext output))) \<and>
   (\<forall>err. fst (discoverGoRoot ext w0) = Inl err \<longrightarrow>
      fst (LoadContext ext linters cfg w0) = Returned (Inl (CantDiscoverGOROOT err)) \<and>
      environ (snd (LoadContext ext linters cfg w0)) = environ w0 \<and>
      build_Default_GOROOT (snd (LoadContext ext linters cfg w0)) = build_Default_GOROOT w0 \<and>
      effects (snd (LoadContext ext linters cfg w0)) = effects w0 @ [Exec_go_env_GOROOT]) \<and>
   (\<forall>goroot. fst (discoverGoRoot ext w0) = Inr goroot \<longrightarrow>
      (CHR 0x00 \<notin> set goroot \<longrightarrow>
         environ (snd (LoadContext ext linters cfg w0)) = (environ w0)(''GOROOT'' := goroot)) \<and>
      build_Default_GOROOT (snd (LoadContext ext linters cfg w0)) = goroot \<and>
      (\<exists>rest. effects (snd (LoadContext ext linters cfg w0)) =
         effects w0
         @ (if environ w0 ''GOROOT'' \<noteq> '''' then [] else [Exec_go_env_GOROOT])
         @ [Setenv ''GOROOT'' goroot, Assign_build_Default_GOROOT goroot,
            NewResolver (BuildTags (Run cfg))
              (packages_StdExcludeDirRegexps ext @ SkipDirs (Run cfg))]
         @ rest \<and>
         (\<forall>e \<in> set rest. (\<forall>k v. e \<noteq> Setenv k v) \<and>
            (\<forall>v. e \<noteq> Assign_build_Default_GOROOT v) \<and> e \<noteq> Exec_go_env_GOROOT)))"
proof -
  have set: "environ w0 ''GOROOT'' \<noteq> '''' \<longrightarrow>
      discoverGoRoot ext w0 = (Inr (environ w0 ''GOROOT''), w0)"
    by (simp add: discoverGoRoot_def)
  have unset: "environ w0 ''GOROOT'' = '''' \<longrightarrow>
      fst (discoverGoRoot ext w0) =
        (case exec_go_env_GOROOT ext of
           Inl err \<Rightarrow> Inl (CantExecuteGoEnv err)
         | Inr output \<Rightarrow> Inr (strings_TrimSpace ext output))"
    by (simp add: discoverGoRoot_def Let_def split: sum.splits)
  have empty_if_failed: "environ w0 ''GOROOT'' = ''''"
    if "fst (discoverGoRoot ext w0) = Inl err" for err
    using that by (auto simp: discoverGoRoot_def Let_def split: if_splits)
  obtain r w' where run: "LoadContext ext linters cfg w0 = (r, w')"
    by (cases "LoadContext ext linters cfg w0")
  have failed: "\<forall>err. fst (discoverGoRoot ext w0) = Inl err \<longrightarrow>
      r = Returned (Inl (CantDiscoverGOROOT err)) \<and>
      environ w' = environ w0 \<and> build_Default_GOROOT w' = build_Default_GOROOT w0 \<and>
      effects w' = effects w0 @ [Exec_go_env_GOROOT]"
    using run
    by (cases rule: LoadContext_cases) (auto dest: empty_if_failed)
  have found: "\<forall>goroot. fst (discoverGoRoot ext w0) = Inr goroot \<longrightarrow>
      (CHR 0x00 \<notin> set goroot \<longrightarrow> environ w' = (environ w0)(''GOROOT'' := goroot)) \<and>
      build_Default_GOROOT w' = goroot \<and>
      (\<exists>rest. effects w' =
         effects w0
         @ (if environ w0 ''GOROOT'' \<noteq> '''' then [] else [Exec_go_env_GOROOT])
         @ [Setenv ''GOROOT'' goroot, Assign_build_Default_GOROOT goroot,
            NewResolver (BuildTags (Run cfg))
              (packages_StdExcludeDirRegexps ext @ SkipDirs (Run cfg))]
         @ rest \<and>
         (\<forall>e \<in> set rest. (\<forall>k v. e \<noteq> Setenv k v) \<and>
            (\<forall>v. e \<noteq> Assign_build_Default_GOROOT v) \<and> e \<noteq> Exec_go_env_GOROOT))"
    using run
  proof (cases rule: LoadContext_cases)
    case (load_failed g err es)
    then show ?thesis by auto
  qed auto
  from set unset failed found show ?thesis
    by (simp only: run fst_conv snd_conv)
qed

lemma example_fast_needs_nothing:
  "\<forall>l \<in> set example_linters_fast. \<not> NeedsProgramLoading l"
  by (simp add: example_linters_fast_def)

theorem loader_not_invoked_witness:
  "\<not> (\<exists>l \<in> set example_linters_fast. NeedsProgramLoading l) \<and>
   loadWholeAppIfNeeded example_ext example_linters_fast (Run example_cfg) example_pkgProg
     example_world = (Inr (None, None), example_world) \<and>
   (\<exists>es. effects (snd (LoadContext example_ext example_linters_fast example_cfg example_world))
        = effects example_world @ es \<and>
      Load \<notin> set es \<and> (\<forall>a t. FromArgs a t \<notin> set es)) \<and>
   fst (LoadContext example_ext example_linters_fast example_cfg example_world)
     = Returned (Inr example_ctx_light) \<and>
   Program example_ctx_light = None \<and> LoaderConfig example_ctx_light = None \<and>
   SSAProgram example_ctx_light = None \<and> NotCompilingPackages example_ctx_light = []"
proof -
  note t = loader_not_invoked [OF example_fast_needs_nothing, of example_ext "Run example_cfg"
      example_pkgProg example_world example_cfg example_world]
  from t have a: "loadWholeAppIfNeeded example_ext example_linters_fast (Run example_cfg)
      example_pkgProg example_world = (Inr (None, None), example_world)" ..
  from t have b: "\<exists>es.
      effects (snd (LoadContext example_ext example_linters_fast example_cfg example_world))
        = effects example_world @ es \<and>
      Load \<notin> set es \<and> (\<forall>a t. FromArgs a t \<notin> set es)"
    by (elim conjE)
  from t have "\<forall>ctx. fst (LoadContext example_ext example_linters_fast example_cfg example_world)
      = Returned (Inr ctx) \<longrightarrow>
       Program ctx = None \<and> LoaderConfig ctx = None \<and> SSAProgram ctx = None \<and>
       NotCompilingPackages ctx = []"
    by (elim conjE)
  from this [rule_format, OF example_run_light(1)]
  have c: "Program example_ctx_light = None \<and> LoaderConfig example_ctx_light = None \<and>
      SSAProgram example_ctx_light = None \<and> NotCompilingPackages example_ctx_light = []" .
  have "\<not> (\<exists>l \<in> set example_linters_fast. NeedsProgramLoading l)"
    using example_fast_needs_nothing by blast
  with a b example_run_light(1) c show ?thesis
    by (intro conjI) auto
qed

lemma example_needs_SSA: "\<exists>l \<in> set example_linters. NeedsSSARepresentation l"
  by (simp add: example_linters_def)

theorem SSA_built_when_needed_witness:
  "fst (LoadContext example_ext example_linters example_cfg example_world)
     = Returned (Inr example_ctx_loaded) \<and>
   (\<exists>l \<in> set example_linters. NeedsSSARepresentation l) \<and>
   Program example_ctx_loaded \<noteq> None \<and> SSAProgram example_ctx_loaded \<noteq> None \<and>
   fst (LoadContext example_ext example_linters_fast example_cfg example_world)
     = Returned (Inr example_ctx_light) \<and>
   Program example_ctx_light = None \<and> SSAProgram example_ctx_light = None \<and>
   (\<exists>es. effects (snd (LoadContext example_ext example_linters example_cfg example_world))
        = effects example_world @ es \<and>
      CreateProgram \<in> set es \<and> BuildSSA \<in> set es \<and> LoadFromProgram \<in> set es \<and>
      Load \<in> set es) \<and>
   (\<exists>es. effects (snd (LoadContext example_ext example_linters_fast example_cfg example_world))
        = effects example_world @ es \<and>
      CreateProgram \<notin> set es \<and> BuildSSA \<notin> set es \<and> LoadFromProgram \<notin> set es)"
proof -
  have p: "Program example_ctx_loaded \<noteq> None" "Program example_ctx_light = None"
    by (simp_all add: example_ctx_loaded_def example_ctx_light_def)
  from SSA_built_when_needed [of example_ext example_linters example_cfg example_world]
  obtain es where es: "effects (snd (LoadContext example_ext example_linters example_cfg
        example_world)) = effects example_world @ es"
    and build: "CreateProgram \<in> set es \<longleftrightarrow> BuildSSA \<in> set es"
    and load: "LoadFromProgram \<in> set es \<longrightarrow> Load \<in> set es"
    and ctx: "\<forall>ctx. fst (LoadContext example_ext example_linters example_cfg example_world)
        = Returned (Inr ctx) \<longrightarrow>
        (SSAProgram ctx \<noteq> None \<longleftrightarrow>
           Program ctx \<noteq> None \<and> (\<exists>l \<in> set example_linters. NeedsSSARepresentation l)) \<and>
        (SSAProgram ctx \<noteq> None \<longleftrightarrow> CreateProgram \<in> set es) \<and>
        (Program ctx \<noteq> None \<longleftrightarrow> LoadFromProgram \<in> set es) \<and>
        (\<forall>s. SSAProgram ctx = Some s \<longrightarrow>
           ssa_built s \<and> ssa_mode s = GlobalDebug \<and>
           (\<exists>lc. Config_Load example_ext lc = Inr (ssa_prog s)))"
    by blast
  from ctx [rule_format, OF example_run_loaded(1)] p(1) example_needs_SSA
  have l1: "SSAProgram example_ctx_loaded \<noteq> None" and "CreateProgram \<in> set es"
    and "LoadFromProgram \<in> set es"
    by blast+
  with build load es have loaded: "\<exists>es.
      effects (snd (LoadContext example_ext example_linters example_cfg example_world))
        = effects example_world @ es \<and>
      CreateProgram \<in> set es \<and> BuildSSA \<in> set es \<and> LoadFromProgram \<in> set es \<and>
      Load \<in> set es"
    by blast
  from SSA_built_when_needed [of example_ext example_linters_fast example_cfg example_world]
  obtain es' where es': "effects (snd (LoadContext example_ext example_linters_fast example_cfg
        example_world)) = effects example_world @ es'"
    and build': "CreateProgram \<in> set es' \<longleftrightarrow> BuildSSA \<in> set es'"
    and ctx': "\<forall>ctx. fst (LoadContext example_ext example_linters_fast example_cfg example_world)
        = Returned (Inr ctx) \<longrightarrow>
        (SSAProgram ctx \<noteq> None \<longleftrightarrow>
           Program ctx \<noteq> None
           \<and> (\<exists>l \<in> set example_linters_fast. NeedsSSARepresentation l)) \<and>
        (SSAProgram ctx \<noteq> None \<longleftrightarrow> CreateProgram \<in> set es') \<and>
        (Program ctx \<noteq> None \<longleftrightarrow> LoadFromProgram \<in> set es') \<and>
        (\<forall>s. SSAProgram ctx = Some s \<longrightarrow>
           ssa_built s \<and> ssa_mode s = GlobalDebug \<and>
           (\<exists>lc. Config_Load example_ext lc = Inr (ssa_prog s)))"
    by blast
  from ctx' [rule_format, OF example_run_light(1)] p(2)
  have l2: "SSAProgram example_ctx_light = None" and "CreateProgram \<notin> set es'"
    and "LoadFromProgram \<notin> set es'"
    by blast+
  with build' es' have light: "\<exists>es.
      effects (snd (LoadContext example_ext example_linters_fast example_cfg example_world))
        = effects example_world @ es \<and>
      CreateProgram \<notin> set es \<and> BuildSSA \<notin> set es \<and> LoadFromProgram \<notin> set es"
    by blast
  from example_run_loaded(1) example_needs_SSA p(1) l1 example_run_light(1) p(2) l2
    loaded light
  show ?thesis by (intro conjI)
qed

theorem parse_cache_source_witness:
  "fst (LoadContext example_ext example_linters example_cfg example_world)
     = Returned (Inr example_ctx_loaded) \<and>
   Program example_ctx_loaded \<noteq> None \<and>
   (\<exists>lc lprog. Config_Load example_ext lc = Inr lprog \<and>
      Program example_ctx_loaded = Some (fst (separateProgram lprog [])) \<and>
      astcache_LoadFromProgram example_ext lprog = Inr (ASTCache example_ctx_loaded)) \<and>
   (\<exists>es. effects (snd (LoadContext example_ext example_linters example_cfg example_world))
        = effects example_world @ es \<and>
      LoadFromProgram \<in> set es \<and> Load \<in> set es \<and>
      (\<forall>files. LoadFromFiles files \<notin> set es)) \<and>
   fst (LoadContext example_ext example_linters_fast example_cfg example_world)
     = Returned (Inr example_ctx_light) \<and>
   Program example_ctx_light = None \<and>
   astcache_LoadFromFiles example_ext
       (Files (PkgProgram example_ctx_light) (AnalyzeTests (Run example_cfg)))
     = Inr (ASTCache example_ctx_light) \<and>
   (\<exists>es. effects (snd (LoadContext example_ext example_linters_fast example_cfg example_world))
        = effects example_world @ es \<and>
      LoadFromFiles (Files (PkgProgram example_ctx_light) (AnalyzeTests (Run example_cfg)))
        \<in> set es \<and>
      LoadFromProgram \<notin> set es \<and> Load \<notin> set es)"
proof -
  have p: "Program example_ctx_loaded \<noteq> None" "Program example_ctx_light = None"
    by (simp_all add: example_ctx_loaded_def example_ctx_light_def)
  from parse_cache_source [of example_ext example_linters example_cfg example_world]
  obtain es where es: "effects (snd (LoadContext example_ext example_linters example_cfg
        example_world)) = effects example_world @ es"
    and prog: "LoadFromProgram \<in> set es \<longrightarrow>
        Load \<in> set es \<and> (\<forall>files. LoadFromFiles files \<notin> set es)"
    and ctx: "\<forall>ctx. fst (LoadContext example_ext example_linters example_cfg example_world)
        = Returned (Inr ctx) \<longrightarrow>
        (Program ctx \<noteq> None \<longrightarrow>
           LoadFromProgram \<in> set es \<and>
           (\<exists>lc lprog. Config_Load example_ext lc = Inr lprog \<and>
              Program ctx = Some (fst (separateProgram lprog [])) \<and>
              astcache_LoadFromProgram example_ext lprog = Inr (ASTCache ctx))) \<and>
        (Program ctx = None \<longrightarrow>
           LoadFromFiles (Files (PkgProgram ctx) (AnalyzeTests (Run example_cfg))) \<in> set es \<and>
           astcache_LoadFromFiles example_ext
               (Files (PkgProgram ctx) (AnalyzeTests (Run example_cfg)))
             = Inr (ASTCache ctx))"
    by blast
  from ctx [rule_format, OF example_run_loaded(1)] p(1)
  have from_prog: "LoadFromProgram \<in> set es"
    and derived: "\<exists>lc lprog. Config_Load example_ext lc = Inr lprog \<and>
      Program example_ctx_loaded = Some (fst (separateProgram lprog [])) \<and>
      astcache_LoadFromProgram example_ext lprog = Inr (ASTCache example_ctx_loaded)"
    by blast+
  with prog es have loaded: "\<exists>es.
      effects (snd (LoadContext example_ext example_linters example_cfg example_world))
        = effects example_world @ es \<and>
      LoadFromProgram \<in> set es \<and> Load \<in> set es \<and>
      (\<forall>files. LoadFromFiles files \<notin> set es)"
    by blast
  from parse_cache_source [of example_ext example_linters_fast example_cfg example_world]
  obtain es' where es': "effects (snd (LoadContext example_ext example_linters_fast example_cfg
        example_world)) = effects example_world @ es'"
    and files: "\<forall>files. LoadFromFiles files \<in> set es' \<longrightarrow>
        Load \<notin> set es' \<and> LoadFromProgram \<notin> set es'"
    and ctx': "\<forall>ctx. fst (LoadContext example_ext example_linters_fast example_cfg example_world)
        = Returned (Inr ctx) \<longrightarrow>
        (Program ctx \<noteq> None \<longrightarrow>
           LoadFromProgram \<in> set es' \<and>
           (\<exists>lc lprog. Config_Load example_ext lc = Inr lprog \<and>
              Program ctx = Some (fst (separateProgram lprog [])) \<and>
              astcache_LoadFromProgram example_ext lprog = Inr (ASTCache ctx))) \<and>
        (Program ctx = None \<longrightarrow>
           LoadFromFiles (Files (PkgProgram ctx) (AnalyzeTests (Run example_cfg))) \<in> set es' \<and>
           astcache_LoadFromFiles example_ext
               (Files (PkgProgram ctx) (AnalyzeTests (Run example_cfg)))
             = Inr (ASTCache ctx))"
    by blast
  from ctx' [rule_format, OF example_run_light(1)] p(2)
  have from_files: "LoadFromFiles (Files (PkgProgram example_ctx_light)
        (AnalyzeTests (Run example_cfg))) \<in> set es'"
    and parsed: "astcache_LoadFromFiles example_ext
       (Files (PkgProgram example_ctx_light) (AnalyzeTests (Run example_cfg)))
     = Inr (ASTCache example_ctx_light)"
    by blast+
  with files es' have light: "\<exists>es.
      effects (snd (LoadContext example_ext example_linters_fast example_cfg example_world))
        = effects example_world @ es \<and>
      LoadFromFiles (Files (PkgProgram example_ctx_light) (AnalyzeTests (Run example_cfg)))
        \<in> set es \<and>
      LoadFromProgram \<notin> set es \<and> Load \<notin> set es"
    by blast
  from example_run_loaded(1) p(1) derived loaded example_run_light(1) p(2) parsed light
  show ?thesis by (intro conjI)
qed

lemma example_GOROOT_facts:
  "environ example_world_GOROOT ''GOROOT'' = ''/opt/go''"
  "environ example_world ''GOROOT'' = ''''"
  "exec_go_env_GOROOT example_ext = Inr ''/usr/local/go ''"
  "strings_TrimSpace example_ext ''/usr/local/go '' = ''/usr/local/go''"
  "exec_go_env_GOROOT example_ext_no_toolchain = Inl (External ''exec: go: not found'')"
  by (simp_all add: example_world_GOROOT_def example_world_def example_ext_def
      example_ext_no_toolchain_def)

theorem GOROOT_established_witness:
  "environ example_world_GOROOT ''GOROOT'' \<noteq> '''' \<and>
   CHR 0x00 \<notin> set ''/opt/go'' \<and> CHR 0x00 \<notin> set ''/usr/local/go'' \<and>
   discoverGoRoot example_ext example_world_GOROOT = (Inr ''/opt/go'', example_world_GOROOT) \<and>
   environ (snd (LoadContext example_ext example_linters example_cfg example_world_GOROOT))
     ''GOROOT'' = ''/opt/go'' \<and>
   build_Default_GOROOT
     (snd (LoadContext example_ext example_linters example_cfg example_world_GOROOT))
     = ''/opt/go'' \<and>
   environ example_world ''GOROOT'' = '''' \<and>
   fst (discoverGoRoot example_ext example_world) = Inr ''/usr/local/go'' \<and>
   environ (snd (LoadContext example_ext example_linters example_cfg example_world))
     ''GOROOT'' = ''/usr/local/go'' \<and>
   build_Default_GOROOT
     (snd (LoadContext example_ext example_linters example_cfg example_world))
     = ''/usr/local/go'' \<and>
   fst (discoverGoRoot example_ext_no_toolchain example_world)
     = Inl (CantExecuteGoEnv (External ''exec: go: not found'')) \<and>
   fst (LoadContext example_ext_no_toolchain example_linters example_cfg example_world)
     = Returned (Inl (CantDiscoverGOROOT (CantExecuteGoEnv (External ''exec: go: not found'')))) \<and>
   environ (snd (LoadContext example_ext_no_toolchain example_linters example_cfg example_world))
     = environ example_world \<and>
   build_Default_GOROOT
     (snd (LoadContext example_ext_no_toolchain example_linters example_cfg example_world))
     = ''/cross/go''"
proof -
  note f = example_GOROOT_facts
  have set: "environ example_world_GOROOT ''GOROOT'' \<noteq> ''''"
    by (simp add: f)
  note t1 = GOROOT_established [where ?w0.0 = example_world_GOROOT and ext = example_ext
      and linters = example_linters and cfg = example_cfg]
  from t1 set have d1: "discoverGoRoot example_ext example_world_GOROOT
      = (Inr (environ example_world_GOROOT ''GOROOT''), example_world_GOROOT)"
    by blast
  then have d1': "fst (discoverGoRoot example_ext example_world_GOROOT) = Inr ''/opt/go''"
    by (simp add: f)
  from t1 have "\<forall>goroot. fst (discoverGoRoot example_ext example_world_GOROOT) = Inr goroot \<longrightarrow>
      (CHR 0x00 \<notin> set goroot \<longrightarrow>
       environ (snd (LoadContext example_ext example_linters example_cfg example_world_GOROOT))
        = (environ example_world_GOROOT)(''GOROOT'' := goroot)) \<and>
      build_Default_GOROOT
        (snd (LoadContext example_ext example_linters example_cfg example_world_GOROOT))
        = goroot"
    by blast
  from this [rule_format, OF d1']
  have e1: "environ (snd (LoadContext example_ext example_linters example_cfg
        example_world_GOROOT)) ''GOROOT'' = ''/opt/go''"
    and b1: "build_Default_GOROOT
        (snd (LoadContext example_ext example_linters example_cfg example_world_GOROOT))
        = ''/opt/go''"
    by simp_all
  note t2 = GOROOT_established [where ?w0.0 = example_world and ext = example_ext
      and linters = example_linters and cfg = example_cfg]
  from t2 f(2) have "fst (discoverGoRoot example_ext example_world) =
        (case exec_go_env_GOROOT example_ext of
           Inl err \<Rightarrow> Inl (CantExecuteGoEnv err)
         | Inr output \<Rightarrow> Inr (strings_TrimSpace example_ext output))"
    by blast
  then have d2: "fst (discoverGoRoot example_ext example_world) = Inr ''/usr/local/go''"
    by (simp add: f)
  from t2 have "\<forall>goroot. fst (discoverGoRoot example_ext example_world) = Inr goroot \<longrightarrow>
      (CHR 0x00 \<notin> set goroot \<longrightarrow>
       environ (snd (LoadContext example_ext example_linters example_cfg example_world))
        = (environ example_world)(''GOROOT'' := goroot)) \<and>
      build_Default_GOROOT
        (snd (LoadContext example_ext example_linters example_cfg example_world))
        = goroot"
    by blast
  from this [rule_format, OF d2]
  have e2: "environ (snd (LoadContext example_ext example_linters example_cfg example_world))
        ''GOROOT'' = ''/usr/local/go''"
    and b2: "build_Default_GOROOT
        (snd (LoadContext example_ext example_linters example_cfg example_world))
        = ''/usr/local/go''"
    by simp_all
  note t3 = GOROOT_established [where ?w0.0 = example_world
      and ext = example_ext_no_toolchain and linters = example_linters and cfg = example_cfg]
  from t3 f(2) have "fst (discoverGoRoot example_ext_no_toolchain example_world) =
        (case exec_go_env_GOROOT example_ext_no_toolchain of
           Inl err \<Rightarrow> Inl (CantExecuteGoEnv err)
         | Inr output \<Rightarrow> Inr (strings_TrimSpace example_ext_no_toolchain output))"
    by blast
  then have d3: "fst (discoverGoRoot example_ext_no_toolchain example_world)
      = Inl (CantExecuteGoEnv (External ''exec: go: not found''))"
    by (simp add: f)
  from t3 have "\<forall>err. fst (discoverGoRoot example_ext_no_toolchain example_world) = Inl err \<longrightarrow>
      fst (LoadContext example_ext_no_toolchain example_linters example_cfg example_world)
        = Returned (Inl (CantDiscoverGOROOT err)) \<and>
      environ (snd (LoadContext example_ext_no_toolchain example_linters example_cfg
        example_world)) = environ example_world \<and>
      build_Default_GOROOT (snd (LoadContext example_ext_no_toolchain example_linters
        example_cfg example_world)) = build_Default_GOROOT example_world"
    by blast
  from this [rule_format, OF d3]
  have r3: "fst (LoadContext example_ext_no_toolchain example_linters example_cfg example_world)
        = Returned (Inl (CantDiscoverGOROOT (CantExecuteGoEnv (External ''exec: go: not found''))))"
    and e3: "environ (snd (LoadContext example_ext_no_toolchain example_linters example_cfg
        example_world)) = environ example_world"
    and b3: "build_Default_GOROOT (snd (LoadContext example_ext_no_toolchain example_linters
        example_cfg example_world)) = ''/cross/go''"
    by (simp_all add: example_world_def)
  have n1: "CHR 0x00 \<notin> set ''/opt/go''" and n2: "CHR 0x00 \<notin> set ''/usr/local/go''"
    by simp_all
  from set n1 n2 d1 [unfolded f] e1 b1 f(2) d2 e2 b2 d3 r3 e3 b3 show ?thesis
    by (intro conjI)
qed

text \<open>
  With a NUL byte in the discovered value \<^verbatim>\<open>os.Setenv\<close> fails, the error is dropped, and
  the environment variable is not set to that value.
\<close>

theorem GOROOT_not_set_counterexample:
  "fst (discoverGoRoot example_ext_nul example_world) = Inr example_goroot_nul \<and>
   environ (snd (LoadContext example_ext_nul example_linters_fast example_cfg example_world))
     ''GOROOT'' = '''' \<and>
   example_goroot_nul \<noteq> '''' \<and>
   build_Default_GOROOT
     (snd (LoadContext example_ext_nul example_linters_fast example_cfg example_world))
     = example_goroot_nul"
  by (simp add: LoadContext_def discoverGoRoot_def loadWholeAppIfNeeded_def
      record_effect_def os_Setenv_def Let_def
      example_ext_nul_def example_goroot_nul_def example_ext_def example_linters_fast_def
      example_cfg_def example_world_def example_pkgProg_def)

end
